theory Spec2Isabelle
  imports Complex_Main "HOL-Library.Word" "HOL-Library.Sublist"
begin

section \<open>JavaScript values and strings\<close>

text \<open>
  A JavaScript string is a sequence of UTF-16 code units, and \<open>length\<close> counts code
  units. ASCII literals of the source are written \<open>str ''...''\<close>; the glyphs outside
  ASCII are given by their code units.
\<close>

type_synonym char16 = "16 word"
type_synonym jstring = "char16 list"

definition str :: "string \<Rightarrow> jstring" where
  "str s = map (\<lambda>c. of_nat (of_char c)) s"

text \<open>
  The values the cards handle: \<open>undefined\<close>, \<open>null\<close>, booleans, numbers (integers
  only: prices and ids with a fraction are outside the model), strings and plain
  objects (own properties as an association list).
\<close>

datatype jsval =
    JUndefined
  | JNull
  | JBool bool
  | JNum int
  | JStr jstring
  | JObj "(string \<times> jsval) list"

type_synonym obj = "(string \<times> jsval) list"

text \<open>\<open>if (v)\<close>, \<open>!v\<close>, \<open>v ? a : b\<close>: the truthiness of a value.\<close>

fun truthy :: "jsval \<Rightarrow> bool" where
  "truthy JUndefined = False"
| "truthy JNull = False"
| "truthy (JBool b) = b"
| "truthy (JNum n) = (n \<noteq> 0)"
| "truthy (JStr s) = (s \<noteq> [])"
| "truthy (JObj fs) = True"

text \<open>\<open>a || b\<close> and \<open>a ?? b\<close>.\<close>

definition js_or :: "jsval \<Rightarrow> jsval \<Rightarrow> jsval" where
  "js_or a b = (if truthy a then a else b)"

fun nullish :: "jsval \<Rightarrow> bool" where
  "nullish JUndefined = True"
| "nullish JNull = True"
| "nullish v = False"

definition coalesce :: "jsval \<Rightarrow> jsval \<Rightarrow> jsval" where
  "coalesce a b = (if nullish a then b else a)"

text \<open>\<open>o.k\<close> on a plain object: \<open>undefined\<close> when the property is absent.\<close>

definition get_prop :: "obj \<Rightarrow> string \<Rightarrow> jsval" where
  "get_prop fs k = (case map_of fs k of Some v \<Rightarrow> v | None \<Rightarrow> JUndefined)"

text \<open>\<open>String(v)\<close> and the conversion of a template substitution \<open>${v}\<close>.\<close>

definition digit :: "nat \<Rightarrow> char16" where
  "digit d = of_nat (48 + d)"

fun digits :: "nat \<Rightarrow> jstring" where
  "digits n = (if n < 10 then [digit n] else digits (n div 10) @ [digit (n mod 10)])"

declare digits.simps [simp del]

definition num_str :: "int \<Rightarrow> jstring" where
  "num_str n = (if n < 0 then str ''-'' @ digits (nat (- n)) else digits (nat n))"

fun ToString :: "jsval \<Rightarrow> jstring" where
  "ToString JUndefined = str ''undefined''"
| "ToString JNull = str ''null''"
| "ToString (JBool b) = (if b then str ''true'' else str ''false'')"
| "ToString (JNum n) = num_str n"
| "ToString (JStr s) = s"
| "ToString (JObj fs) = str ''[object Object]''"

text \<open>\<open>typeof v === "object"\<close> (true of \<open>null\<close> as well).\<close>

fun typeof_object :: "jsval \<Rightarrow> bool" where
  "typeof_object (JObj fs) = True"
| "typeof_object JNull = True"
| "typeof_object v = False"

text \<open>
  \<open>s.trim()\<close> removes the white space and line terminators of ECMAScript from both
  ends.
\<close>

definition is_ws :: "char16 \<Rightarrow> bool" where
  "is_ws c \<longleftrightarrow>
     c \<in> {0x09, 0x0A, 0x0B, 0x0C, 0x0D, 0x20, 0xA0, 0x1680, 0x2028, 0x2029, 0x202F,
          0x205F, 0x3000, 0xFEFF} \<or> (0x2000 \<le> c \<and> c \<le> 0x200A)"

definition trim :: "jstring \<Rightarrow> jstring" where
  "trim s = rev (dropWhile is_ws (rev (dropWhile is_ws s)))"

section \<open>The shopping-list card: escaping\<close>

text \<open>
  \<open>s.replace(/c/g, r)\<close> for a pattern of one literal character and a replacement
  without \<open>$\<close>: every occurrence of \<open>c\<close> becomes \<open>r\<close>.
\<close>

definition replace_all :: "char16 \<Rightarrow> jstring \<Rightarrow> jstring \<Rightarrow> jstring" where
  "replace_all c r s = concat (map (\<lambda>x. if x = c then r else [x]) s)"

definition amp :: char16 where "amp = 0x26"
definition lt :: char16 where "lt = 0x3C"
definition gt :: char16 where "gt = 0x3E"
definition quot :: char16 where "quot = 0x22"

text \<open>
  \<^verbatim>\<open>
  _escHtml(str) {
    return String(str)
      .replace(/&/g, "&amp;")
      .replace(/</g, "&lt;")
      .replace(/>/g, "&gt;")
      .replace(/"/g, "&quot;");
  }
  \<close>
\<close>

definition escHtml :: "jsval \<Rightarrow> jstring" where
  "escHtml v =
     replace_all quot (str ''&quot;'')
       (replace_all gt (str ''&gt;'')
         (replace_all lt (str ''&lt;'')
           (replace_all amp (str ''&amp;'') (ToString v))))"

text \<open>The four substitutions \<open>_escHtml\<close> writes.\<close>

definition entities :: "jstring list" where
  "entities = [str ''&amp;'', str ''&lt;'', str ''&gt;'', str ''&quot;'']"

text \<open>
  A string is safe to interpolate into markup when it has no \<open><\<close>, \<open>>\<close> or \<open>"\<close>
  and each \<open>&\<close> in it starts one of the four substitutions.
\<close>

fun amp_starts_entity :: "jstring \<Rightarrow> bool" where
  "amp_starts_entity [] = True"
| "amp_starts_entity (c # cs) =
     ((if c = amp then list_ex (\<lambda>e. prefix e (c # cs)) entities else True)
      \<and> amp_starts_entity cs)"

definition html_safe :: "jstring \<Rightarrow> bool" where
  "html_safe s \<longleftrightarrow> lt \<notin> set s \<and> gt \<notin> set s \<and> quot \<notin> set s \<and> amp_starts_entity s"

text \<open>The text one character of the input becomes.\<close>

definition esc_char :: "char16 \<Rightarrow> jstring" where
  "esc_char c =
     (if c = amp then str ''&amp;''
      else if c = lt then str ''&lt;''
      else if c = gt then str ''&gt;''
      else if c = quot then str ''&quot;''
      else [c])"

section \<open>The host: service calls, the catalog lookup, the trace\<close>

text \<open>The card configuration object (\<open>config\<close>); an absent property is \<open>undefined\<close>.\<close>

record card_config =
  config_entry_id :: jsval
  shopping_list_id :: jsval
  title :: jsval
  domain :: jsval

text \<open>
  An entry of \<open>products_in_list\<close>, as the shopping-list card reads it
  (\<open>id'\<close> is the property \<open>id\<close>).
\<close>

record product =
  productName :: jsval
  name :: jsval
  productId :: jsval
  id' :: jsval
  brand :: jsval
  textualAmount :: jsval
  amount :: jsval
  price :: jsval

text \<open>
  An entry of the cart's \<open>products\<close> and of \<open>search_results\<close>, as the cart card
  reads it (\<open>p.id\<close>, \<open>p.name\<close>, \<open>p.brand\<close>, \<open>p.price\<close>, \<open>p.quantity\<close>,
  \<open>p.cart_item_id\<close>). Product ids are numbers.
\<close>

record cart_product =
  cp_id :: int
  cp_name :: jsval
  cp_brand :: jsval
  cp_price :: jsval
  cp_quantity :: jsval
  cp_cart_item_id :: jsval

text \<open>
  What a service call resolves to, at the shape the cards read:
  \<open>RList name products_in_list\<close> for \<open>result.response\<close> of \<open>get_shopping_list\<close>,
  \<open>RCart products total_price total_items\<close> for the data of \<open>get_cart_content\<close>,
  \<open>RSearch search_results\<close> for the data of \<open>search_product\<close>, \<open>RNone\<close> when there
  is no response data. An absent array is \<open>None\<close>. A call either resolves or rejects
  with an error \<open>e\<close>, of which the cards read \<open>e.message\<close>.
\<close>

datatype response =
    RNone
  | RList jsval "product list option"
  | RCart "cart_product list option" jsval jsval
  | RSearch "cart_product list option"

datatype 'a outcome = Resolved 'a | Rejected jsval

text \<open>
  \<open>hass.callService(domain, service, data, undefined, true, true)\<close>: the host answers
  from its own state \<open>'w\<close>, which the answer may change.
\<close>

type_synonym 'w hass = "'w \<Rightarrow> jsval \<Rightarrow> string \<Rightarrow> obj \<Rightarrow> response outcome \<times> 'w"

text \<open>
  The catalog lookup \<open>fetch(url)\<close> followed by \<open>resp.json()\<close>: the request rejects,
  or answers with \<open>resp.ok\<close> false, or the body does not parse, or it is a list of
  items \<open>{id, images, textualAmount}\<close>.
\<close>

record catalog_item =
  item_id :: int
  item_images :: "jsval list option"
  item_textualAmount :: jsval

datatype fetch_result =
    FetchRejected
  | FetchNotOk
  | FetchJsonRejected
  | FetchOk "catalog_item list"

type_synonym 'w catalog = "'w \<Rightarrow> jstring \<Rightarrow> fetch_result \<times> 'w"

text \<open>
  What a handler does, in order: a render (with the state it renders), a service call
  and its settlement, a catalog request and its settlement. A handler awaits every call
  it issues, so a call's settlement directly follows the call.
\<close>

datatype 's event =
    Render 's
  | Call jsval string obj
  | Settled "response outcome"
  | Fetch jstring
  | Fetched fetch_result

text \<open>
  Reading a property of \<open>undefined\<close> throws a TypeError; its message names the
  property.
\<close>

definition type_error :: "string \<Rightarrow> jsval" where
  "type_error prop =
     JStr (str ''Cannot read properties of undefined (reading '' @ [0x27] @ str prop @ [0x27] @ str '')'')"

text \<open>
  \<open>await this._hass.callService(this._domain, service, {...}, undefined, true, true)\<close>
  inside a \<open>try\<close>: \<open>this._hass\<close> is read first, then the data object is built from
  \<open>this._config\<close>; either being \<open>undefined\<close> throws before any call is issued.
\<close>

definition callService ::
  "'w hass \<Rightarrow> bool \<Rightarrow> card_config option \<Rightarrow> jsval \<Rightarrow> string \<Rightarrow> (card_config \<Rightarrow> obj) \<Rightarrow> 'w
   \<Rightarrow> response outcome \<times> 'w \<times> 's event list" where
  "callService hass attached config dmn service data w =
     (if \<not> attached then (Rejected (type_error ''callService''), w, [])
      else case config of
        None \<Rightarrow> (Rejected (type_error ''config_entry_id''), w, [])
      | Some cfg \<Rightarrow>
          (let (r, w') = hass w dmn service (data cfg)
           in (r, w', [Call dmn service (data cfg), Settled r])))"

section \<open>The shopping-list card\<close>

text \<open>An entry of \<open>_addResults\<close>: \<open>{name, ok, error}\<close>.\<close>

record add_result =
  res_name :: jsval
  res_ok :: bool
  res_error :: jsval

text \<open>
  The \<open>.toast\<close> element: its text and the inline style properties the card writes.
  The style sheet gives it opacity 0; it is visible once the inline opacity is 1.
\<close>

record toast_el =
  textContent :: jstring
  background :: jstring
  opacity :: jstring
  transform :: jstring

text \<open>
  The fields of a \<open>RohlikczShoppingListCard\<close> (\<open>this._items\<close> is \<open>l_items\<close>, and so
  on), with the part of its surroundings the card writes to: \<open>l_toasts\<close> are the
  \<open>.toast\<close> elements \<open>_render\<close> has created, the last one being the one in the shadow
  root; \<open>l_timers\<close> are the pending \<open>setTimeout\<close> callbacks of \<open>_showToast\<close>, each with
  the time it is due (in ms) and the element it captured.
\<close>

record list_state =
  l_items :: "product list"
  l_listName :: jsval
  l_loading :: bool
  l_error :: jsval
  l_addingAll :: bool
  l_addResults :: "add_result list"
  l_config :: "card_config option"
  l_domain :: jsval
  l_hass :: bool
  l_loaded :: bool
  l_toasts :: "toast_el list"
  l_timers :: "(nat \<times> nat) list"

text \<open>The constructor.\<close>

definition list_init :: list_state where
  "list_init =
     \<lparr>l_items = [], l_listName = JStr [], l_loading = False, l_error = JNull,
      l_addingAll = False, l_addResults = [], l_config = None, l_domain = JUndefined,
      l_hass = False, l_loaded = False, l_toasts = [], l_timers = []\<rparr>"

subsection \<open>Rendering\<close>

text \<open>
  A template literal is the list of its pieces: \<open>Lit\<close> for the text the source
  writes, \<open>Txt\<close> for the value of a substitution \<open>${...}\<close> that is computed from the
  state. A substitution that chooses between literals or nested templates contributes
  their pieces. The markup is the concatenation.
\<close>

datatype piece = Lit jstring | Txt jstring

fun piece_text :: "piece \<Rightarrow> jstring" where
  "piece_text (Lit s) = s"
| "piece_text (Txt s) = s"

definition html :: "piece list \<Rightarrow> jstring" where
  "html ps = concat (map piece_text ps)"

fun substituted :: "piece list \<Rightarrow> jstring list" where
  "substituted [] = []"
| "substituted (Lit s # ps) = substituted ps"
| "substituted (Txt s # ps) = s # substituted ps"

text \<open>\<open>v.k\<close> for the structured price \<open>{full, currency}\<close>.\<close>

fun get_member :: "jsval \<Rightarrow> string \<Rightarrow> jsval" where
  "get_member (JObj fs) k = get_prop fs k"
| "get_member v k = JUndefined"

text \<open>One entry of \<open>rows\<close> in \<open>_renderBody\<close> (lines 376-400).\<close>

definition row :: "product \<Rightarrow> nat \<Rightarrow> piece list" where
  "row product idx =
     (let name' = coalesce (productName product)
                    (coalesce (name product)
                       (JStr (str ''Product '' @ ToString (coalesce (productId product) (id' product)))));
          brand' = coalesce (brand product) (JStr []);
          amount' = coalesce (textualAmount product) (coalesce (amount product) (JStr []));
          price' = (if truthy (price product)
                    then (if typeof_object (price product)
                          then JStr (trim (ToString (coalesce (get_member (price product) ''full'') (JStr []))
                                           @ str '' ''
                                           @ ToString (coalesce (get_member (price product) ''currency'') (JStr []))))
                          else price product)
                    else JStr [])
      in [Lit (str ''\<newline>        <li class=\"item\">\<newline>          <span class=\"item-icon\">'' @ [0xD83E, 0xDD66] @ str ''</span>\<newline>          <div class=\"item-info\">\<newline>            <div class=\"item-name\">''),
          Txt (escHtml name'),
          Lit (str ''</div>\<newline>            <div class=\"item-meta\">\<newline>              '')]
         @ (if truthy brand'
           then [Lit (str ''<span>''),
                 Txt (escHtml brand'),
                 Lit (str ''</span>'')]
           else [])
         @ [Lit (str ''\<newline>              '')]
         @ (if truthy amount'
           then [Lit (str ''<span>''),
                 Txt (escHtml amount'),
                 Lit (str ''</span>'')]
           else [])
         @ [Lit (str ''\<newline>            </div>\<newline>          </div>\<newline>          '')]
         @ (if truthy price'
           then [Lit (str ''<span class=\"item-price\">''),
                 Txt (escHtml (JStr (ToString price'))),
                 Lit (str ''</span>'')]
           else [])
         @ [Lit (str ''\<newline>          <button class=\"add-btn\" data-idx=\"''),
          Txt (num_str (int idx)),
          Lit (str ''\" title=\"Add to cart\">+</button>\<newline>        </li>\<newline>      '')])"

text \<open>\<open>_renderBody()\<close>: loading, else the error, else the empty state, else the rows.\<close>

definition renderBody :: "list_state \<Rightarrow> piece list" where
  "renderBody st =
     (if l_loading st then
        [Lit (str ''<div class=\"state-box\"><div class=\"spinner\"></div><span>Loading shopping list'' @ [0x2026] @ str ''</span></div>'')]
      else if truthy (l_error st) then
        [Lit (str ''<div class=\"state-box\"><span class=\"error-icon\">'' @ [0x26A0] @ [0xFE0F] @ str ''</span><span>''),
         Txt (escHtml (l_error st)),
         Lit (str ''</span></div>'')]
      else if length (l_items st) = 0 then
        [Lit (str ''<div class=\"state-box\"><span class=\"empty-icon\">'' @ [0xD83D, 0xDCCB] @ str ''</span><span>No items in this shopping list</span></div>'')]
      else
        [Lit (str ''<ul class=\"item-list\">'')]
         @ concat (map (\<lambda>(idx, product). row product idx) (enumerate 0 (l_items st)))
         @ [Lit (str ''</ul>'')])"

text \<open>One chip of the results bar (line 340).\<close>

definition chip :: "add_result \<Rightarrow> piece list" where
  "chip r =
    [Lit (str ''<span class=\"result-chip '')]
     @ (if res_ok r then [Lit (str ''result-ok'')] else [Lit (str ''result-fail'')])
     @ [Lit (str ''\">''),
      Txt (escHtml (res_name r)),
      Lit (str '': '')]
     @ (if res_ok r then [Lit ([0x2713] @ str '' added'')] else [Lit ([0x2717] @ str '' failed'')])
     @ [Lit (str ''</span>'')]"

text \<open>
  The markup \<open>_render()\<close> assigns to \<open>shadowRoot.innerHTML\<close>. The \<open>style\<close> element
  (lines 131-319) is literal text without a substitution: it is the parameter \<open>css\<close>.
\<close>

definition render_html :: "jstring \<Rightarrow> list_state \<Rightarrow> piece list" where
  "render_html css st =
     (let title' = js_or (case l_config st of None \<Rightarrow> JUndefined | Some config \<Rightarrow> title config)
                     (js_or (l_listName st) (JStr (str ''Shopping List'')))
      in [Lit (str ''\<newline>      ''),
          Lit css,
          Lit (str ''\<newline>\<newline>      <ha-card>\<newline>        <div class=\"header\">\<newline>          <div class=\"header-left\">\<newline>            <span class=\"header-icon\">'' @ [0xD83D, 0xDED2] @ str ''</span>\<newline>            <div>\<newline>              <div class=\"title\">''),
          Txt (escHtml title'),
          Lit (str ''</div>\<newline>              '')]
         @ (if length (l_items st) > 0
           then [Lit (str ''<div class=\"subtitle\">''),
                 Txt (num_str (int (length (l_items st)))),
                 Lit (str '' item'')]
                @ (if length (l_items st) \<noteq> 1 then [Lit (str ''s'')] else [])
                @ [Lit (str ''</div>'')]
           else [])
         @ [Lit (str ''\<newline>            </div>\<newline>          </div>\<newline>          <div class=\"actions\">\<newline>            <button class=\"btn btn-secondary\" id=\"refresh-btn\" title=\"Refresh\">'' @ [0x21BB] @ str '' Refresh</button>\<newline>            '')]
         @ (if length (l_items st) > 0
           then [Lit (str ''<button class=\"btn btn-primary\" id=\"add-all-btn\" '')]
                @ (if l_addingAll st then [Lit (str ''disabled'')] else [])
                @ [Lit (str ''>'')]
                @ (if l_addingAll st then [Lit (str ''Adding'' @ [0x2026])] else [Lit (str ''Add all to cart'')])
                @ [Lit (str ''</button>'')]
           else [])
         @ [Lit (str ''\<newline>          </div>\<newline>        </div>\<newline>\<newline>        '')]
         @ renderBody st
         @ [Lit (str ''\<newline>\<newline>        '')]
         @ (if length (l_addResults st) > 0
           then [Lit (str ''\<newline>          <div class=\"results-bar\">\<newline>            '')]
                @ concat (map chip (l_addResults st))
                @ [Lit (str ''\<newline>          </div>\<newline>        '')]
           else [])
         @ [Lit (str ''\<newline>      </ha-card>\<newline>\<newline>      <div class=\"toast\"></div>\<newline>    '')])"

text \<open>
  \<open>_render()\<close> replaces the content of the shadow root, so the shadow root holds a new
  \<open>.toast\<close> element without inline style; the event records the state rendered.
\<close>

definition new_toast :: toast_el where
  "new_toast = \<lparr>textContent = [], background = [], opacity = [], transform = []\<rparr>"

definition render :: "list_state \<Rightarrow> list_state \<times> list_state event list" where
  "render st = (st\<lparr>l_toasts := l_toasts st @ [new_toast]\<rparr>, [Render st])"

subsection \<open>Configuration and attachment\<close>

text \<open>
  \<open>setConfig(config)\<close>: the result is the error thrown, if any, with the state and the
  trace the call leaves.
\<close>

definition setConfig ::
  "card_config \<Rightarrow> list_state \<Rightarrow> (jstring + unit) \<times> list_state \<times> list_state event list" where
  "setConfig config st =
     (if \<not> truthy (config_entry_id config) then
        (Inl (str ''config_entry_id is required''), st, [])
      else if \<not> truthy (shopping_list_id config) then
        (Inl (str ''shopping_list_id is required''), st, [])
      else
        (let st1 = st\<lparr>l_config := Some config\<rparr>;
             st2 = st1\<lparr>l_domain := js_or (domain config) (JStr (str ''rohlikcz2''))\<rparr>;
             (st3, ev) = render st2
         in (Inr (), st3, ev)))"

subsection \<open>Fetching the list\<close>

text \<open>\<open>result.response?.name\<close> and \<open>result.response?.products_in_list || []\<close>.\<close>

fun response_name :: "response \<Rightarrow> jsval" where
  "response_name (RList n ps) = n"
| "response_name r = JUndefined"

fun response_products_in_list :: "response \<Rightarrow> product list" where
  "response_products_in_list (RList n (Some ps)) = ps"
| "response_products_in_list r = []"

definition fetchList :: "'w hass \<Rightarrow> list_state \<Rightarrow> 'w \<Rightarrow> list_state \<times> 'w \<times> list_state event list" where
  "fetchList hass st w =
     (let st1 = st\<lparr>l_loading := True, l_error := JNull, l_addResults := []\<rparr>;
          (st2, ev1) = render st1;
          (r, w', ev2) =
             callService hass (l_hass st2) (l_config st2) (l_domain st2) ''get_shopping_list''
               (\<lambda>cfg. [(''config_entry_id'', config_entry_id cfg),
                       (''shopping_list_id'', shopping_list_id cfg)]) w;
          st3 = (case r of
                   Resolved result \<Rightarrow>
                     st2\<lparr>l_listName := js_or (response_name result) (JStr []),
                         l_items := response_products_in_list result\<rparr>
                 | Rejected message \<Rightarrow>
                     st2\<lparr>l_error := js_or message (JStr (str ''Failed to load shopping list''))\<rparr>);
          (st4, ev3) = render (st3\<lparr>l_loading := False\<rparr>)
      in (st4, w', ev1 @ ev2 @ ev3))"

text \<open>The setter \<open>set hass(hass)\<close>: the first attachment fetches the list.\<close>

definition set_hass :: "'w hass \<Rightarrow> list_state \<Rightarrow> 'w \<Rightarrow> list_state \<times> 'w \<times> list_state event list" where
  "set_hass hass st w =
     (let st1 = st\<lparr>l_hass := True\<rparr>
      in if \<not> l_loaded st1 then fetchList hass (st1\<lparr>l_loaded := True\<rparr>) w
         else (st1, w, []))"

subsection \<open>Adding to the cart\<close>

text \<open>The data of the \<open>add_to_cart\<close> call for one product of the list.\<close>

definition add_data :: "product \<Rightarrow> card_config \<Rightarrow> obj" where
  "add_data product cfg =
     [(''config_entry_id'', config_entry_id cfg),
      (''product_id'', coalesce (productId product) (id' product)),
      (''quantity'', JNum 1)]"

text \<open>
  The loop of \<open>_addAllToCart\<close> over the products left, with the \<open>results\<close> pushed so
  far: each call is awaited before the next product is taken.
\<close>

fun addAll_loop ::
  "'w hass \<Rightarrow> list_state \<Rightarrow> product list \<Rightarrow> add_result list \<Rightarrow> 'w
   \<Rightarrow> add_result list \<times> 'w \<times> list_state event list" where
  "addAll_loop hass st [] results w = (results, w, [])"
| "addAll_loop hass st (product # rest) results w =
     (let (r, w1, ev) =
             callService hass (l_hass st) (l_config st) (l_domain st) ''add_to_cart''
               (add_data product) w;
          results1 = (case r of
                        Resolved x \<Rightarrow>
                          results @ [\<lparr>res_name = coalesce (productName product) (name product),
                                       res_ok = True, res_error = JUndefined\<rparr>]
                      | Rejected message \<Rightarrow>
                          results @ [\<lparr>res_name = coalesce (productName product) (name product),
                                       res_ok = False, res_error = message\<rparr>]);
          (results2, w2, evs) = addAll_loop hass st rest results1 w1
      in (results2, w2, ev @ evs))"

definition addAllToCart ::
  "'w hass \<Rightarrow> list_state \<Rightarrow> 'w \<Rightarrow> list_state \<times> 'w \<times> list_state event list" where
  "addAllToCart hass st w =
     (let st1 = st\<lparr>l_addingAll := True, l_addResults := []\<rparr>;
          (st2, ev1) = render st1;
          (results, w', ev2) = addAll_loop hass st2 (l_items st2) [] w;
          st3 = st2\<lparr>l_addResults := results, l_addingAll := False\<rparr>;
          (st4, ev3) = render st3
      in (st4, w', ev1 @ ev2 @ ev3))"

text \<open>
  \<open>_showToast(msg, isError)\<close> at time \<open>now\<close> (ms): without a \<open>.toast\<close> element nothing
  happens; otherwise the element in the shadow root is written and a callback that hides
  that element is scheduled 2500 ms later. No callback is ever cancelled.
\<close>

definition showToast :: "nat \<Rightarrow> jstring \<Rightarrow> bool \<Rightarrow> list_state \<Rightarrow> list_state" where
  "showToast now msg isError st =
     (if l_toasts st = [] then st
      else
        (let i = length (l_toasts st) - 1;
             toast = l_toasts st ! i
         in st\<lparr>l_toasts := (l_toasts st)
                  [i := toast\<lparr>textContent := msg,
                              background := (if isError then str ''var(--error-color, #c62828)''
                                             else str ''var(--success-color, #2e7d32)''),
                              opacity := str ''1'',
                              transform := str ''translateY(0)''\<rparr>],
                l_timers := l_timers st @ [(now + 2500, i)]\<rparr>))"

text \<open>The callback of \<open>setTimeout\<close> in \<open>_showToast\<close>, for the element it captured.\<close>

definition hide_toast :: "nat \<Rightarrow> list_state \<Rightarrow> list_state" where
  "hide_toast i st =
     st\<lparr>l_toasts := (l_toasts st)
          [i := (l_toasts st ! i)\<lparr>opacity := str ''0'', transform := str ''translateY(8px)''\<rparr>]\<rparr>"

text \<open>
  The host's timer queue when the clock reaches \<open>now\<close>: every callback that is due
  runs and leaves the queue.
\<close>

definition run_timers :: "nat \<Rightarrow> list_state \<Rightarrow> list_state" where
  "run_timers now st =
     (fold (\<lambda>(due, i) s. hide_toast i s) (filter (\<lambda>(due, i). due \<le> now) (l_timers st)) st)
       \<lparr>l_timers := filter (\<lambda>(due, i). \<not> due \<le> now) (l_timers st)\<rparr>"

text \<open>What the user sees of the toast: the element in the shadow root, if it is shown.\<close>

definition toast_shown :: "list_state \<Rightarrow> jstring option" where
  "toast_shown st =
     (if l_toasts st \<noteq> [] \<and> opacity (last (l_toasts st)) = str ''1''
      then Some (textContent (last (l_toasts st))) else None)"

text \<open>\<open>_addItemToCart(product)\<close>; the call settles at time \<open>now\<close>.\<close>

definition addItemToCart ::
  "'w hass \<Rightarrow> nat \<Rightarrow> product \<Rightarrow> list_state \<Rightarrow> 'w \<Rightarrow> list_state \<times> 'w \<times> list_state event list" where
  "addItemToCart hass now product st w =
     (let name' = coalesce (productName product)
                    (coalesce (name product) (coalesce (productId product) (id' product)));
          (r, w', ev) =
             callService hass (l_hass st) (l_config st) (l_domain st) ''add_to_cart''
               (add_data product) w
      in case r of
           Resolved x \<Rightarrow>
             (showToast now ([0x2713] @ str '' '' @ ToString name' @ str '' added to cart'') False st,
              w', ev)
         | Rejected message \<Rightarrow>
             (showToast now ([0x2717] @ str '' Failed: '' @ ToString message) True st, w', ev))"

subsection \<open>The size hint\<close>

text \<open>\<open>getCardSize()\<close>: \<open>Math.max(1, Math.ceil(this._items.length / 2) + 2)\<close>.\<close>

definition getCardSize :: "list_state \<Rightarrow> int" where
  "getCardSize st = max 1 (\<lceil>real (length (l_items st)) / 2\<rceil> + 2)"

text \<open>
  A substituted text comes out of \<open>_escHtml\<close>, or is the decimal form of a count or an
  index.
\<close>

definition from_escHtml :: "jstring \<Rightarrow> bool" where
  "from_escHtml s \<longleftrightarrow> (\<exists>v. s = escHtml v) \<or> (\<exists>n::nat. s = num_str (int n))"

section \<open>The cart card\<close>

text \<open>An entry of \<open>_imageCache\<close>: \<open>{image, textualAmount}\<close>.\<close>

record image_entry =
  ie_image :: jsval
  ie_textualAmount :: jsval

text \<open>
  The fields of a \<open>RohlikczCartCard\<close> (\<open>this._products\<close> is \<open>c_products\<close>, and so on).
  The objects \<open>_imageCache\<close> and \<open>_addingToCart\<close> are keyed by product id; they are
  association lists, a key being present when the object has the property.
\<close>

record cart_state =
  c_products :: "cart_product list"
  c_totalPrice :: jsval
  c_totalItems :: jsval
  c_loading :: bool
  c_error :: jsval
  c_imageCache :: "(int \<times> image_entry) list"
  c_searchQuery :: jstring
  c_searchResults :: "cart_product list"
  c_searching :: bool
  c_searchError :: jsval
  c_addingToCart :: "(int \<times> bool) list"
  c_config :: "card_config option"
  c_domain :: jsval
  c_hass :: bool
  c_loaded :: bool

text \<open>The constructor.\<close>

definition cart_init :: cart_state where
  "cart_init =
     \<lparr>c_products = [], c_totalPrice = JNum 0, c_totalItems = JNum 0, c_loading = False,
      c_error = JNull, c_imageCache = [], c_searchQuery = [], c_searchResults = [],
      c_searching = False, c_searchError = JNull, c_addingToCart = [], c_config = None,
      c_domain = JUndefined, c_hass = False, c_loaded = False\<rparr>"

text \<open>\<open>o[k] = v\<close> and \<open>{...o, [k]: v}\<close> on such an object.\<close>

fun put :: "'k \<Rightarrow> 'v \<Rightarrow> ('k \<times> 'v) list \<Rightarrow> ('k \<times> 'v) list" where
  "put k v [] = [(k, v)]"
| "put k v ((k', v') # kvs) = (if k = k' then (k, v) # kvs else (k', v') # put k v kvs)"

subsection \<open>Rendering\<close>

text \<open>
  The body \<open>_render()\<close> chooses (lines 397-437): the loading line, else the error, else
  the empty cart, else the items with the totals. Each alternative stands for its
  markup and carries the values the markup is built from.
\<close>

datatype cart_body =
    LoadingPanel
  | ErrorPanel jsval
  | EmptyPanel
  | CartView "cart_product list" jsval jsval

definition render_body :: "cart_state \<Rightarrow> cart_body" where
  "render_body st =
     (if c_loading st then LoadingPanel
      else if truthy (c_error st) then ErrorPanel (c_error st)
      else if length (c_products st) = 0 then EmptyPanel
      else CartView (c_products st) (c_totalItems st) (c_totalPrice st))"

subsection \<open>Configuration\<close>

definition setConfig_cart ::
  "card_config \<Rightarrow> cart_state \<Rightarrow> (jstring + unit) \<times> cart_state \<times> cart_state event list" where
  "setConfig_cart config st =
     (if \<not> truthy (config_entry_id config) then
        (Inl (str ''config_entry_id is required''), st, [])
      else
        (let st1 = st\<lparr>c_config := Some config\<rparr>;
             st2 = st1\<lparr>c_domain := js_or (domain config) (JStr (str ''rohlikcz2''))\<rparr>
         in (Inr (), st2, [Render st2])))"

subsection \<open>The image cache\<close>

text \<open>\<open>xs.join(sep)\<close> on strings.\<close>

fun join :: "jstring \<Rightarrow> jstring list \<Rightarrow> jstring" where
  "join sep [] = []"
| "join sep [x] = x"
| "join sep (x # y # ys) = x @ sep @ join sep (y # ys)"

text \<open>The address of the batch lookup for the ids \<open>uncached\<close> (lines 72-73).\<close>

definition products_url :: "int list \<Rightarrow> jstring" where
  "products_url uncached =
     str ''https://www.rohlik.cz/api/v1/products?''
     @ join (str ''&'') (map (\<lambda>id. str ''products='' @ num_str id) uncached)"

text \<open>\<open>item.images?.[0] || null\<close>.\<close>

definition first_image :: "catalog_item \<Rightarrow> jsval" where
  "first_image item =
     js_or (case item_images item of
              None \<Rightarrow> JUndefined
            | Some [] \<Rightarrow> JUndefined
            | Some (x # xs) \<Rightarrow> x) JNull"

text \<open>The loop over the items of the answer (lines 76-81).\<close>

definition cache_items :: "catalog_item list \<Rightarrow> (int \<times> image_entry) list \<Rightarrow> (int \<times> image_entry) list" where
  "cache_items items cache =
     fold (\<lambda>item. put (item_id item)
             \<lparr>ie_image = first_image item,
              ie_textualAmount = js_or (item_textualAmount item) JNull\<rparr>) items cache"

text \<open>
  \<open>_fetchImages(productIds)\<close>. An entry of the cache is an object, hence truthy: an id
  is uncached exactly when the cache has no entry for it. Every failure is swallowed.
\<close>

definition fetchImages ::
  "'w catalog \<Rightarrow> int list \<Rightarrow> cart_state \<Rightarrow> 'w \<Rightarrow> cart_state \<times> 'w \<times> cart_state event list" where
  "fetchImages fetch productIds st w =
     (let uncached = filter (\<lambda>id. map_of (c_imageCache st) id = None) productIds
      in if length uncached = 0 then (st, w, [])
         else
           (let (resp, w') = fetch w (products_url uncached);
                st' = (case resp of
                         FetchOk items \<Rightarrow>
                           st\<lparr>c_imageCache := cache_items items (c_imageCache st)\<rparr>
                       | FetchRejected \<Rightarrow> st
                       | FetchNotOk \<Rightarrow> st
                       | FetchJsonRejected \<Rightarrow> st)
            in (st', w', [Fetch (products_url uncached), Fetched resp])))"

subsection \<open>Fetching the cart\<close>

text \<open>
  \<open>data = result?.response || result\<close>, then \<open>data?.products || []\<close>,
  \<open>data?.total_price\<close>, \<open>data?.total_items\<close> and \<open>data?.search_results || []\<close>.
\<close>

fun data_products :: "response \<Rightarrow> cart_product list" where
  "data_products (RCart (Some ps) tp ti) = ps"
| "data_products r = []"

fun data_total_price :: "response \<Rightarrow> jsval" where
  "data_total_price (RCart ps tp ti) = tp"
| "data_total_price r = JUndefined"

fun data_total_items :: "response \<Rightarrow> jsval" where
  "data_total_items (RCart ps tp ti) = ti"
| "data_total_items r = JUndefined"

fun data_search_results :: "response \<Rightarrow> cart_product list" where
  "data_search_results (RSearch (Some ps)) = ps"
| "data_search_results r = []"

definition fetchCart ::
  "'w hass \<Rightarrow> 'w catalog \<Rightarrow> cart_state \<Rightarrow> 'w \<Rightarrow> cart_state \<times> 'w \<times> cart_state event list" where
  "fetchCart hass fetch st w =
     (if \<not> c_hass st \<or> c_loading st then (st, w, [])
      else
        (let st1 = st\<lparr>c_loading := True, c_error := JNull\<rparr>;
             (r, w1, ev) =
                callService hass (c_hass st1) (c_config st1) (c_domain st1) ''get_cart_content''
                  (\<lambda>cfg. [(''config_entry_id'', config_entry_id cfg)]) w
         in case r of
              Resolved result \<Rightarrow>
                (let st2 = st1\<lparr>c_products := data_products result,
                               c_totalPrice := js_or (data_total_price result) (JNum 0),
                               c_totalItems := js_or (data_total_items result) (JNum 0)\<rparr>;
                     (st3, w2, ev') =
                        (if length (c_products st2) > 0
                         then fetchImages fetch (map cp_id (c_products st2)) st2 w1
                         else (st2, w1, []));
                     st4 = st3\<lparr>c_loading := False\<rparr>
                 in (st4, w2, [Render st1] @ ev @ ev' @ [Render st4]))
            | Rejected message \<Rightarrow>
                (let st2 = st1\<lparr>c_error := js_or message (JStr (str ''Failed to load cart''))\<rparr>;
                     st3 = st2\<lparr>c_loading := False\<rparr>
                 in (st3, w1, [Render st1] @ ev @ [Render st3]))))"

text \<open>The setter \<open>set hass(hass)\<close>: the first attachment fetches the cart.\<close>

definition set_hass_cart ::
  "'w hass \<Rightarrow> 'w catalog \<Rightarrow> cart_state \<Rightarrow> 'w \<Rightarrow> cart_state \<times> 'w \<times> cart_state event list" where
  "set_hass_cart hass fetch st w =
     (let st1 = st\<lparr>c_hass := True\<rparr>
      in if \<not> c_loaded st1 then fetchCart hass fetch (st1\<lparr>c_loaded := True\<rparr>) w
         else (st1, w, []))"

subsection \<open>Search\<close>

definition searchProducts ::
  "'w hass \<Rightarrow> 'w catalog \<Rightarrow> jstring \<Rightarrow> cart_state \<Rightarrow> 'w
   \<Rightarrow> cart_state \<times> 'w \<times> cart_state event list" where
  "searchProducts hass fetch query st w =
     (if query = [] \<or> length (trim query) < 2 then
        (let st1 = st\<lparr>c_searchResults := [], c_searchError := JNull\<rparr>
         in (st1, w, [Render st1]))
      else
        (let st1 = st\<lparr>c_searching := True, c_searchError := JNull\<rparr>;
             (r, w1, ev) =
                callService hass (c_hass st1) (c_config st1) (c_domain st1) ''search_product''
                  (\<lambda>cfg. [(''config_entry_id'', config_entry_id cfg),
                          (''product_name'', JStr query),
                          (''limit'', JNum 10)]) w
         in case r of
              Resolved result \<Rightarrow>
                (let raw = data_search_results result;
                     st2 = st1\<lparr>c_searchResults := raw\<rparr>;
                     (st3, w2, ev') =
                        (if length raw > 0
                         then fetchImages fetch (map cp_id raw) st2 w1
                         else (st2, w1, []));
                     st4 = st3\<lparr>c_searching := False\<rparr>
                 in (st4, w2, [Render st1] @ ev @ ev' @ [Render st4]))
            | Rejected message \<Rightarrow>
                (let st2 = st1\<lparr>c_searchError := js_or message (JStr (str ''Search failed'')),
                               c_searchResults := []\<rparr>;
                     st3 = st2\<lparr>c_searching := False\<rparr>
                 in (st3, w1, [Render st1] @ ev @ [Render st3]))))"

subsection \<open>Adding from the search results, removing a line\<close>

text \<open>\<open>_addToCart(productId)\<close>; the argument is \<open>product_id\<close> here.\<close>

definition addToCart ::
  "'w hass \<Rightarrow> 'w catalog \<Rightarrow> int \<Rightarrow> cart_state \<Rightarrow> 'w
   \<Rightarrow> cart_state \<times> 'w \<times> cart_state event list" where
  "addToCart hass fetch product_id st w =
     (let st1 = st\<lparr>c_addingToCart := put product_id True (c_addingToCart st)\<rparr>;
          (r, w1, ev) =
             callService hass (c_hass st1) (c_config st1) (c_domain st1) ''add_to_cart''
               (\<lambda>cfg. [(''config_entry_id'', config_entry_id cfg),
                       (''product_id'', JNum product_id),
                       (''quantity'', JNum 1)]) w;
          (st3, w3, ev') =
             (case r of
                Resolved x \<Rightarrow> fetchCart hass fetch (st1\<lparr>c_loaded := False\<rparr>) w1
              | Rejected message \<Rightarrow>
                  (st1\<lparr>c_error := JStr (str ''Failed to add item: '' @ ToString message)\<rparr>,
                   w1, []));
          st4 = st3\<lparr>c_addingToCart := put product_id False (c_addingToCart st3)\<rparr>
      in (st4, w3, [Render st1] @ ev @ ev' @ [Render st4]))"

definition removeFromCart ::
  "'w hass \<Rightarrow> 'w catalog \<Rightarrow> jsval \<Rightarrow> cart_state \<Rightarrow> 'w
   \<Rightarrow> cart_state \<times> 'w \<times> cart_state event list" where
  "removeFromCart hass fetch cartItemId st w =
     (let (r, w1, ev) =
             callService hass (c_hass st) (c_config st) (c_domain st) ''delete_from_cart''
               (\<lambda>cfg. [(''config_entry_id'', config_entry_id cfg),
                       (''order_field_id'', cartItemId)]) w
      in case r of
           Resolved x \<Rightarrow>
             (let (st1, w2, ev') = fetchCart hass fetch st w1 in (st1, w2, ev @ ev'))
         | Rejected message \<Rightarrow>
             (let st1 = st\<lparr>c_error := JStr (str ''Failed to remove item: '' @ ToString message)\<rparr>
              in (st1, w1, ev @ [Render st1])))"

subsection \<open>The methods of the two classes\<close>

text \<open>
  The instance methods and accessors each class declares, by name, in the order of the
  source. The host reads the size hint by calling \<open>getCardSize\<close>.
\<close>

datatype card = RohlikczShoppingListCard | RohlikczCartCard

fun methods :: "card \<Rightarrow> string list" where
  "methods RohlikczShoppingListCard =
     [''constructor'', ''setConfig'', ''hass'', ''_fetchList'', ''_addAllToCart'',
      ''_addItemToCart'', ''_showToast'', ''_render'', ''_renderBody'', ''_escHtml'',
      ''getCardSize'']"
| "methods RohlikczCartCard =
     [''constructor'', ''setConfig'', ''hass'', ''_fetchCart'', ''_fetchImages'',
      ''_searchProducts'', ''_addToCart'', ''_removeFromCart'', ''_render'']"

section \<open>Notions the properties are stated with\<close>

text \<open>
  The answers of the host to the \<open>add_to_cart\<close> calls for the products \<open>ps\<close>, asked
  one after the other from the host state \<open>w\<close>, and the host state after them.
\<close>

fun add_outcomes :: "'w hass \<Rightarrow> jsval \<Rightarrow> card_config \<Rightarrow> product list \<Rightarrow> 'w \<Rightarrow> response outcome list" where
  "add_outcomes hass dmn cfg [] w = []"
| "add_outcomes hass dmn cfg (p # ps) w =
     fst (hass w dmn ''add_to_cart'' (add_data p cfg))
     # add_outcomes hass dmn cfg ps (snd (hass w dmn ''add_to_cart'' (add_data p cfg)))"

fun add_world :: "'w hass \<Rightarrow> jsval \<Rightarrow> card_config \<Rightarrow> product list \<Rightarrow> 'w \<Rightarrow> 'w" where
  "add_world hass dmn cfg [] w = w"
| "add_world hass dmn cfg (p # ps) w =
     add_world hass dmn cfg ps (snd (hass w dmn ''add_to_cart'' (add_data p cfg)))"

text \<open>The entry of the result log for a product and the outcome of its call.\<close>

fun log_entry :: "product \<Rightarrow> response outcome \<Rightarrow> add_result" where
  "log_entry p (Resolved x) =
     \<lparr>res_name = coalesce (productName p) (name p), res_ok = True, res_error = JUndefined\<rparr>"
| "log_entry p (Rejected message) =
     \<lparr>res_name = coalesce (productName p) (name p), res_ok = False, res_error = message\<rparr>"

text \<open>The events of one awaited \<open>add_to_cart\<close> call: the call, then its settlement.\<close>

definition add_events :: "jsval \<Rightarrow> card_config \<Rightarrow> product \<Rightarrow> response outcome \<Rightarrow> list_state event list" where
  "add_events dmn cfg p r = [Call dmn ''add_to_cart'' (add_data p cfg), Settled r]"

text \<open>The product ids the image cache has an entry for.\<close>

definition cached :: "cart_state \<Rightarrow> int set" where
  "cached st = dom (map_of (c_imageCache st))"

text \<open>The ids among \<open>ids\<close> without an entry in the cache, in the order of \<open>ids\<close>.\<close>

definition uncached_of :: "cart_state \<Rightarrow> int list \<Rightarrow> int list" where
  "uncached_of st ids = filter (\<lambda>id. id \<notin> cached st) ids"

text \<open>The service calls of a trace and the states it renders, in order.\<close>

fun calls :: "'s event list \<Rightarrow> (jsval \<times> string \<times> obj) list" where
  "calls [] = []"
| "calls (Call dmn service data # es) = (dmn, service, data) # calls es"
| "calls (e # es) = calls es"

fun renders :: "'s event list \<Rightarrow> 's list" where
  "renders [] = []"
| "renders (Render s # es) = s # renders es"
| "renders (e # es) = renders es"

section \<open>Example inputs\<close>

definition example_config :: card_config where
  "example_config =
     \<lparr>config_entry_id = JStr (str ''entry1''), shopping_list_id = JNum 42,
      title = JUndefined, domain = JUndefined\<rparr>"

definition milk :: product where
  "milk =
     \<lparr>productName = JStr (str ''Milk <1l>''), name = JUndefined, productId = JNum 10,
      id' = JUndefined, brand = JStr (str ''M&M''), textualAmount = JUndefined,
      amount = JUndefined,
      price = JObj [(''full'', JNum 30), (''currency'', JStr (str ''CZK''))]\<rparr>"

definition eggs :: product where
  "eggs =
     \<lparr>productName = JUndefined, name = JStr (str ''Eggs''), productId = JUndefined,
      id' = JNum 11, brand = JUndefined, textualAmount = JStr (str ''10 pcs''),
      amount = JUndefined, price = JNum 55\<rparr>"

definition bread :: product where
  "bread =
     \<lparr>productName = JStr (str ''Bread''), name = JUndefined, productId = JNum 12,
      id' = JUndefined, brand = JUndefined, textualAmount = JUndefined,
      amount = JUndefined, price = JUndefined\<rparr>"

text \<open>A card that was configured, attached and has loaded a list of one product.\<close>

definition list_loaded :: list_state where
  "list_loaded =
     \<lparr>l_items = [milk], l_listName = JStr (str ''Weekly''), l_loading = False,
      l_error = JNull, l_addingAll = False, l_addResults = [],
      l_config = Some example_config, l_domain = JStr (str ''rohlikcz2''),
      l_hass = True, l_loaded = True, l_toasts = [new_toast], l_timers = []\<rparr>"

text \<open>A host that has no bread: it rejects the \<open>add_to_cart\<close> call for product 12.\<close>

definition no_bread :: "unit hass" where
  "no_bread w dmn service data =
     (if map_of data ''product_id'' = Some (JNum 12)
      then (Rejected (JStr (str ''out of stock'')), w)
      else (Resolved RNone, w))"

text \<open>The loaded card with three products on its list: eggs, bread, milk.\<close>

definition list_three :: list_state where
  "list_three = list_loaded\<lparr>l_items := [eggs, bread, milk]\<rparr>"

text \<open>A host that rejects every call with the message \<open>offline\<close>.\<close>

definition offline :: "unit hass" where
  "offline w dmn service data = (Rejected (JStr (str ''offline'')), w)"

text \<open>
  A scripted host and catalog: the host state is the list of answers still to give to
  service calls and the list of answers still to give to catalog requests.
\<close>

definition scripted_hass :: "(response outcome list \<times> fetch_result list) hass" where
  "scripted_hass w dmn service data =
     (case fst w of
        [] \<Rightarrow> (Rejected (JStr (str ''no answer'')), w)
      | r # rs \<Rightarrow> (r, (rs, snd w)))"

definition scripted_fetch :: "(response outcome list \<times> fetch_result list) catalog" where
  "scripted_fetch w url =
     (case snd w of
        [] \<Rightarrow> (FetchRejected, w)
      | r # rs \<Rightarrow> (r, (fst w, rs)))"

definition butter :: catalog_item where
  "butter = \<lparr>item_id = 1, item_images = Some [JStr (str ''https://cdn/1.jpg'')],
             item_textualAmount = JStr (str ''250 g'')\<rparr>"

definition flour :: catalog_item where
  "flour = \<lparr>item_id = 2, item_images = None, item_textualAmount = JUndefined\<rparr>"

definition yogurt :: cart_product where
  "yogurt =
     \<lparr>cp_id = 7, cp_name = JStr (str ''Yogurt''), cp_brand = JUndefined, cp_price = JNum 15,
      cp_quantity = JNum 2, cp_cart_item_id = JStr (str ''L-1'')\<rparr>"

text \<open>
  A cart card that was configured, attached and shows a cart of one line; an earlier
  search has left a result and an error.
\<close>

definition cart_ready :: cart_state where
  "cart_ready =
     \<lparr>c_products = [yogurt], c_totalPrice = JNum 30, c_totalItems = JNum 2,
      c_loading = False, c_error = JNull, c_imageCache = [], c_searchQuery = [],
      c_searchResults = [yogurt], c_searching = False,
      c_searchError = JStr (str ''Search failed''), c_addingToCart = [],
      c_config = Some example_config, c_domain = JStr (str ''rohlikcz2''),
      c_hass = True, c_loaded = True\<rparr>"

section \<open>Properties\<close>

lemma replace_all_append: "replace_all c r (xs @ ys) = replace_all c r xs @ replace_all c r ys"
  by (simp add: replace_all_def)

lemma replace_all_concat:
  "replace_all c r (concat xss) = concat (map (replace_all c r) xss)"
  by (induction xss) (simp_all add: replace_all_append, simp add: replace_all_def)

lemma escHtml_chars: "escHtml v = concat (map esc_char (ToString v))"
proof -
  have one: "replace_all quot (str ''&quot;'')
       (replace_all gt (str ''&gt;'')
         (replace_all lt (str ''&lt;'')
           (if x = amp then str ''&amp;'' else [x]))) = esc_char x" for x
    by (simp add: esc_char_def replace_all_def str_def amp_def lt_def gt_def quot_def)
  have "escHtml v = concat (map (\<lambda>x. replace_all quot (str ''&quot;'')
       (replace_all gt (str ''&gt;'')
         (replace_all lt (str ''&lt;'')
           (if x = amp then str ''&amp;'' else [x])))) (ToString v))"
    unfolding escHtml_def
    by (simp add: replace_all_concat o_def replace_all_def [of amp])
  then show ?thesis by (simp add: one)
qed

subsection \<open>Escaping\<close>

lemma esc_char_set: "lt \<notin> set (esc_char c) \<and> gt \<notin> set (esc_char c) \<and> quot \<notin> set (esc_char c)"
  by (simp add: esc_char_def str_def amp_def lt_def gt_def quot_def)

lemma amp_starts_entity_esc_char:
  "amp_starts_entity rest \<Longrightarrow> amp_starts_entity (esc_char c @ rest)"
  by (simp add: esc_char_def str_def entities_def amp_def lt_def gt_def quot_def)

lemma amp_starts_entity_concat: "amp_starts_entity (concat (map esc_char s))"
  by (induction s) (simp_all add: amp_starts_entity_esc_char)

lemma html_safe_escHtml: "html_safe (escHtml v)"
  using esc_char_set by (auto simp: html_safe_def escHtml_chars amp_starts_entity_concat)

lemma amp_starts_entity_iff:
  "amp_starts_entity s \<longleftrightarrow>
     (\<forall>ys zs. s = ys @ amp # zs \<longrightarrow> (\<exists>e \<in> set entities. prefix e (amp # zs)))"
proof (induction s)
  case Nil
  then show ?case by simp
next
  case (Cons c cs)
  show ?case
  proof
    assume a: "amp_starts_entity (c # cs)"
    show "\<forall>ys zs. c # cs = ys @ amp # zs \<longrightarrow> (\<exists>e \<in> set entities. prefix e (amp # zs))"
    proof (intro allI impI)
      fix ys zs assume e: "c # cs = ys @ amp # zs"
      show "\<exists>e \<in> set entities. prefix e (amp # zs)"
      proof (cases ys)
        case Nil
        with e a show ?thesis by (auto simp: list_ex_iff)
      next
        case (Cons y ys')
        with e have "cs = ys' @ amp # zs" by simp
        moreover from a have "amp_starts_entity cs" by simp
        ultimately show ?thesis using Cons.IH by blast
      qed
    qed
  next
    assume r: "\<forall>ys zs. c # cs = ys @ amp # zs \<longrightarrow> (\<exists>e \<in> set entities. prefix e (amp # zs))"
    have "amp_starts_entity cs"
      unfolding Cons.IH
    proof (intro allI impI)
      fix ys zs assume "cs = ys @ amp # zs"
      then have "c # cs = (c # ys) @ amp # zs" by simp
      with r show "\<exists>e \<in> set entities. prefix e (amp # zs)" by blast
    qed
    moreover have "c = amp \<Longrightarrow> list_ex (\<lambda>e. prefix e (c # cs)) entities"
      using r [rule_format, of "[]" cs] by (auto simp: list_ex_iff)
    ultimately show "amp_starts_entity (c # cs)" by simp
  qed
qed

lemma digit_unat: "d < 10 \<Longrightarrow> unat (digit d) = 48 + d"
proof -
  assume d: "d < 10"
  have "unat (of_nat (48 + d) :: 16 word) = (48 + d) mod 2 ^ 16"
    by (simp only: unat_of_nat len_of_numeral_defs) simp
  also from d have "\<dots> = 48 + d" by simp
  finally show ?thesis by (simp only: digit_def)
qed

lemma digit_plain: "d < 10 \<Longrightarrow> digit d \<notin> {amp, lt, gt, quot}"
proof
  assume d: "d < 10" and "digit d \<in> {amp, lt, gt, quot}"
  then have "unat (digit d) \<in> {unat amp, unat lt, unat gt, unat quot}" by auto
  with d show False
    by (simp add: digit_unat amp_def lt_def gt_def quot_def)
qed

lemma digits_plain: "set (digits n) \<inter> {amp, lt, gt, quot} = {}"
proof (induction n rule: digits.induct)
  case (1 n)
  show ?case
  proof (cases "n < 10")
    case True
    then show ?thesis
      using digit_plain [of n] by (subst digits.simps) simp
  next
    case False
    then have "n mod 10 < 10" by simp
    with False 1 digit_plain [of "n mod 10"] show ?thesis
      by (subst digits.simps) auto
  qed
qed

lemma num_str_plain: "set (num_str n) \<inter> {amp, lt, gt, quot} = {}"
  using digits_plain by (auto simp: num_str_def str_def amp_def lt_def gt_def quot_def)

lemma amp_starts_entity_plain: "amp \<notin> set s \<Longrightarrow> amp_starts_entity s"
  by (induction s) auto

lemma html_safe_plain: "set s \<inter> {amp, lt, gt, quot} = {} \<Longrightarrow> html_safe s"
  by (auto simp: html_safe_def amp_starts_entity_plain)

lemma html_safe_from_escHtml: "from_escHtml s \<Longrightarrow> html_safe s"
  by (auto simp: from_escHtml_def html_safe_escHtml html_safe_plain num_str_plain)

subsection \<open>The substitutions of the shopping-list card's markup\<close>

lemma substituted_append: "substituted (ps @ qs) = substituted ps @ substituted qs"
  by (induction ps rule: substituted.induct) simp_all

lemma substituted_concat: "substituted (concat pss) = concat (map substituted pss)"
  by (induction pss) (simp_all add: substituted_append)

lemma from_escHtml_escHtml: "from_escHtml (escHtml v)"
  by (auto simp: from_escHtml_def)

lemma from_escHtml_num: "from_escHtml (num_str (int n))"
  by (auto simp: from_escHtml_def)

lemma from_escHtml_one: "from_escHtml (num_str 1)"
  using from_escHtml_num [of 1] by simp

lemma row_substituted: "s \<in> set (substituted (row p i)) \<Longrightarrow> from_escHtml s"
  by (auto simp: row_def Let_def substituted_append from_escHtml_escHtml from_escHtml_num
      split: if_splits)

lemma chip_substituted: "s \<in> set (substituted (chip r)) \<Longrightarrow> from_escHtml s"
  by (auto simp: chip_def substituted_append from_escHtml_escHtml split: if_splits)

lemma renderBody_substituted: "s \<in> set (substituted (renderBody st)) \<Longrightarrow> from_escHtml s"
  by (auto simp: renderBody_def substituted_append substituted_concat from_escHtml_escHtml
      dest: row_substituted split: if_splits)

lemma render_html_substituted:
  "s \<in> set (substituted (render_html css st)) \<Longrightarrow> from_escHtml s"
  by (auto simp: render_html_def Let_def substituted_append substituted_concat
      from_escHtml_escHtml from_escHtml_num from_escHtml_one
      dest: renderBody_substituted chip_substituted split: if_splits)

subsection \<open>The cart card: the image lookup and the cart fetch\<close>

lemma map_of_put: "map_of (put k v kvs) = (map_of kvs)(k \<mapsto> v)"
  by (induction kvs) auto

lemma dom_cache_items:
  "dom (map_of (cache_items items c)) = dom (map_of c) \<union> item_id ` set items"
  unfolding cache_items_def
  by (induction items arbitrary: c) (auto simp: map_of_put)

lemma uncached_of_filter:
  "filter (\<lambda>id. map_of (c_imageCache st) id = None) ids = uncached_of st ids"
  by (simp add: uncached_of_def cached_def dom_def)

lemma fetchImages_eq:
  "fetchImages fetch ids st w =
     (if uncached_of st ids = [] then (st, w, [])
      else (case fst (fetch w (products_url (uncached_of st ids))) of
              FetchOk items \<Rightarrow> st\<lparr>c_imageCache := cache_items items (c_imageCache st)\<rparr>
            | FetchRejected \<Rightarrow> st | FetchNotOk \<Rightarrow> st | FetchJsonRejected \<Rightarrow> st,
            snd (fetch w (products_url (uncached_of st ids))),
            [Fetch (products_url (uncached_of st ids)),
             Fetched (fst (fetch w (products_url (uncached_of st ids))))]))"
  by (simp add: fetchImages_def Let_def uncached_of_filter split_beta)

lemma calls_append: "calls (xs @ ys) = calls xs @ calls ys"
  by (induction xs rule: calls.induct) simp_all

lemma renders_append: "renders (xs @ ys) = renders xs @ renders ys"
  by (induction xs rule: renders.induct) simp_all

lemma fetchImages_trace:
  "calls (snd (snd (fetchImages fetch ids st w))) = []
   \<and> renders (snd (snd (fetchImages fetch ids st w))) = []"
  by (simp add: fetchImages_eq)

lemma fetchImages_state:
  "fst (fetchImages fetch ids st w)
     = st\<lparr>c_imageCache := c_imageCache (fst (fetchImages fetch ids st w))\<rparr>"
proof (cases "uncached_of st ids = []")
  case True
  then show ?thesis by (simp add: fetchImages_eq)
next
  case False
  then show ?thesis
    by (cases "fst (fetch w (products_url (uncached_of st ids)))") (simp_all add: fetchImages_eq)
qed

lemma fetchCart_run:
  assumes "c_hass st" and "c_config st = Some cfg" and "\<not> c_loading st"
  shows "calls (snd (snd (fetchCart hass fetch st w)))
           = [(c_domain st, ''get_cart_content'', [(''config_entry_id'', config_entry_id cfg)])]
   \<and> renders (snd (snd (fetchCart hass fetch st w)))
           = [st\<lparr>c_loading := True, c_error := JNull\<rparr>, fst (fetchCart hass fetch st w)]
   \<and> \<not> c_loading (fst (fetchCart hass fetch st w))
   \<and> c_addingToCart (fst (fetchCart hass fetch st w)) = c_addingToCart st
   \<and> c_loaded (fst (fetchCart hass fetch st w)) = c_loaded st
   \<and> c_hass (fst (fetchCart hass fetch st w))"
proof -
  let ?data = "[(''config_entry_id'', config_entry_id cfg)]"
  obtain r w1 where h: "hass w (c_domain st) ''get_cart_content'' ?data = (r, w1)"
    by (cases "hass w (c_domain st) ''get_cart_content'' ?data")
  show ?thesis
  proof (cases r)
    case (Rejected m)
    with assms h show ?thesis
      by (simp add: fetchCart_def callService_def Let_def)
  next
    case (Resolved res)
    let ?st2 = "st\<lparr>c_loading := True, c_error := JNull, c_products := data_products res,
                   c_totalPrice := js_or (data_total_price res) (JNum 0),
                   c_totalItems := js_or (data_total_items res) (JNum 0)\<rparr>"
    let ?fi = "fetchImages fetch (map cp_id (data_products res)) ?st2 w1"
    have c: "c_addingToCart (fst ?fi) = c_addingToCart st" "c_loaded (fst ?fi) = c_loaded st"
      "c_hass (fst ?fi) = c_hass st"
      by (subst fetchImages_state, simp)+
    show ?thesis
      using assms h Resolved c
        fetchImages_trace [of fetch "map cp_id (data_products res)" ?st2 w1]
      by (simp add: fetchCart_def callService_def Let_def split_beta calls_append renders_append)
  qed
qed

subsection \<open>C1: adding the whole list to the cart\<close>

lemma addAll_loop_eq:
  assumes "l_hass st" and "l_config st = Some cfg"
  shows "addAll_loop hass st ps acc w =
           (acc @ map2 log_entry ps (add_outcomes hass (l_domain st) cfg ps w),
            add_world hass (l_domain st) cfg ps w,
            concat (map2 (add_events (l_domain st) cfg) ps (add_outcomes hass (l_domain st) cfg ps w)))"
proof (induction ps arbitrary: acc w)
  case Nil
  show ?case by simp
next
  case (Cons p ps)
  obtain r w1 where h: "hass w (l_domain st) ''add_to_cart'' (add_data p cfg) = (r, w1)"
    by (cases "hass w (l_domain st) ''add_to_cart'' (add_data p cfg)")
  show ?case
    using assms h
    by (cases r) (simp_all add: callService_def Cons.IH add_events_def)
qed

lemma length_add_outcomes: "length (add_outcomes hass dmn cfg ps w) = length ps"
  by (induction ps arbitrary: w) simp_all

text \<open>
  Claim C1. On an attached and configured card, \<open>_addAllToCart\<close> first renders with the
  busy flag set and the log emptied; then, for the items in list order, it issues one
  \<open>add_to_cart\<close> call with quantity 1 per item, each call settled before the next is
  issued; it ends with a render in which the busy flag is cleared and the log has one
  entry per item, in list order: the item's name with \<open>ok\<close>, or with the failure's
  message. A failed call does not stop the loop.
\<close>

theorem addAllToCart_log:
  assumes "l_hass st" and "l_config st = Some cfg"
  shows "(let outs = add_outcomes hass (l_domain st) cfg (l_items st) w;
              log = map2 log_entry (l_items st) outs
          in addAllToCart hass st w =
               (st\<lparr>l_addingAll := False, l_addResults := log,
                   l_toasts := l_toasts st @ [new_toast, new_toast]\<rparr>,
                add_world hass (l_domain st) cfg (l_items st) w,
                [Render (st\<lparr>l_addingAll := True, l_addResults := []\<rparr>)]
                @ concat (map2 (add_events (l_domain st) cfg) (l_items st) outs)
                @ [Render (st\<lparr>l_addingAll := False, l_addResults := log,
                              l_toasts := l_toasts st @ [new_toast]\<rparr>)])
             \<and> length log = length (l_items st)
             \<and> length outs = length (l_items st))"
proof -
  let ?st2 = "st\<lparr>l_addingAll := True, l_addResults := [], l_toasts := l_toasts st @ [new_toast]\<rparr>"
  have a: "l_hass ?st2" "l_config ?st2 = Some cfg" using assms by simp_all
  show ?thesis
    by (simp add: addAllToCart_def render_def Let_def addAll_loop_eq [OF a] length_add_outcomes)
qed

text \<open>
  Over eggs, bread and milk with a host that rejects the call for bread: three entries,
  in list order, the second failed with the host's message; and the calls in the trace
  are those for the products 11, 12 and 10, each followed by its settlement.
\<close>

theorem addAllToCart_log_witness:
  "l_hass list_three \<and> l_config list_three = Some example_config
   \<and> l_addResults (fst (addAllToCart no_bread list_three ())) =
       [\<lparr>res_name = JStr (str ''Eggs''), res_ok = True, res_error = JUndefined\<rparr>,
        \<lparr>res_name = JStr (str ''Bread''), res_ok = False, res_error = JStr (str ''out of stock'')\<rparr>,
        \<lparr>res_name = JStr (str ''Milk <1l>''), res_ok = True, res_error = JUndefined\<rparr>]
   \<and> tl (butlast (snd (snd (addAllToCart no_bread list_three ())))) =
       [Call (JStr (str ''rohlikcz2'')) ''add_to_cart''
          [(''config_entry_id'', JStr (str ''entry1'')), (''product_id'', JNum 11), (''quantity'', JNum 1)],
        Settled (Resolved RNone),
        Call (JStr (str ''rohlikcz2'')) ''add_to_cart''
          [(''config_entry_id'', JStr (str ''entry1'')), (''product_id'', JNum 12), (''quantity'', JNum 1)],
        Settled (Rejected (JStr (str ''out of stock''))),
        Call (JStr (str ''rohlikcz2'')) ''add_to_cart''
          [(''config_entry_id'', JStr (str ''entry1'')), (''product_id'', JNum 10), (''quantity'', JNum 1)],
        Settled (Resolved RNone)]"
proof -
  have h: "l_hass list_three" and c: "l_config list_three = Some example_config"
    by (simp_all add: list_three_def list_loaded_def)
  have i: "l_items list_three = [eggs, bread, milk]"
    and d: "l_domain list_three = JStr (str ''rohlikcz2'')"
    by (simp_all add: list_three_def list_loaded_def)
  have o: "add_outcomes no_bread (JStr (str ''rohlikcz2'')) example_config [eggs, bread, milk] ()
             = [Resolved RNone, Rejected (JStr (str ''out of stock'')), Resolved RNone]"
    by (simp add: no_bread_def add_data_def eggs_def bread_def milk_def coalesce_def)
  let ?log = "map2 log_entry [eggs, bread, milk]
                [Resolved RNone, Rejected (JStr (str ''out of stock'')), Resolved RNone]"
  from addAllToCart_log [OF h c, of no_bread "()"]
  have eq: "addAllToCart no_bread list_three () =
          (list_three\<lparr>l_addingAll := False, l_addResults := ?log,
              l_toasts := l_toasts list_three @ [new_toast, new_toast]\<rparr>,
           add_world no_bread (JStr (str ''rohlikcz2'')) example_config [eggs, bread, milk] (),
           [Render (list_three\<lparr>l_addingAll := True, l_addResults := []\<rparr>)]
           @ concat (map2 (add_events (JStr (str ''rohlikcz2'')) example_config) [eggs, bread, milk]
               [Resolved RNone, Rejected (JStr (str ''out of stock'')), Resolved RNone])
           @ [Render (list_three\<lparr>l_addingAll := False, l_addResults := ?log,
                         l_toasts := l_toasts list_three @ [new_toast]\<rparr>)])"
    by (simp only: Let_def i d o)
  show ?thesis
    by (simp add: eq h c add_events_def add_data_def eggs_def bread_def milk_def
          coalesce_def example_config_def)
qed

subsection \<open>C2: a failed refresh of the list\<close>

text \<open>
  Claim C2, as the code has it. On an attached and configured card, when the
  \<open>get_shopping_list\<close> call is rejected, \<open>_fetchList\<close> renders the loading state, issues
  the call, and renders again with the items as they were, the error message stored
  (the default text when the rejection has no message) and the loading flag cleared.
  In that last render the body is the error panel alone: the only text of the state in
  it is the escaped error message, so the item rows are not rendered; the header still
  shows the item count.
\<close>

theorem fetchList_failure:
  assumes "l_hass st" and "l_config st = Some cfg"
    and "hass w (l_domain st) ''get_shopping_list''
           [(''config_entry_id'', config_entry_id cfg),
            (''shopping_list_id'', shopping_list_id cfg)] = (Rejected m, w')"
  shows "(let st' = st\<lparr>l_loading := False,
                        l_error := js_or m (JStr (str ''Failed to load shopping list'')),
                        l_addResults := [], l_toasts := l_toasts st @ [new_toast]\<rparr>
          in fetchList hass st w =
               (st'\<lparr>l_toasts := l_toasts st @ [new_toast, new_toast]\<rparr>, w',
                [Render (st\<lparr>l_loading := True, l_error := JNull, l_addResults := []\<rparr>),
                 Call (l_domain st) ''get_shopping_list''
                   [(''config_entry_id'', config_entry_id cfg),
                    (''shopping_list_id'', shopping_list_id cfg)],
                 Settled (Rejected m),
                 Render st'])
             \<and> l_items st' = l_items st
             \<and> truthy (l_error st')
             \<and> substituted (renderBody st') = [escHtml (l_error st')]
             \<and> (if length (l_items st) > 0
                 then num_str (int (length (l_items st))) \<in> set (substituted (render_html css st'))
                 else True))"
  using assms
  by (simp add: fetchList_def render_def callService_def Let_def renderBody_def js_or_def str_def
        render_html_def substituted_append)

text \<open>The loaded list of one product, refreshed while the host is offline.\<close>

theorem fetchList_failure_witness:
  "l_hass list_loaded \<and> l_config list_loaded = Some example_config
   \<and> fst (fetchList offline list_loaded ()) =
       list_loaded\<lparr>l_loading := False, l_error := JStr (str ''offline''), l_addResults := [],
         l_toasts := [new_toast, new_toast, new_toast]\<rparr>
   \<and> l_items (fst (fetchList offline list_loaded ())) = [milk]"
proof -
  have h: "l_hass list_loaded" and c: "l_config list_loaded = Some example_config"
    by (simp_all add: list_loaded_def)
  have r: "offline () (l_domain list_loaded) ''get_shopping_list''
           [(''config_entry_id'', config_entry_id example_config),
            (''shopping_list_id'', shopping_list_id example_config)]
           = (Rejected (JStr (str ''offline'')), ())"
    by (simp add: offline_def)
  from fetchList_failure [of list_loaded example_config offline "()" "JStr (str ''offline'')" "()" "[]",
      OF h c r]
  show ?thesis
    by (simp add: Let_def h c js_or_def str_def) (simp add: list_loaded_def)
qed

text \<open>
  The claim as the specification states it fails: after the failed refresh of the loaded
  list, the item is still in the state, but the body of the render is the error panel
  and the name of the item occurs nowhere in the markup.
\<close>

theorem fetchList_failure_counterexample:
  "l_items (fst (fetchList offline list_loaded ())) = [milk]
   \<and> html (renderBody (fst (fetchList offline list_loaded ()))) =
       str ''<div class=\"state-box\"><span class=\"error-icon\">'' @ [0x26A0, 0xFE0F]
       @ str ''</span><span>offline</span></div>''
   \<and> \<not> sublist (str ''Milk'') (html (render_html [] (fst (fetchList offline list_loaded ()))))"
proof -
  have f: "fst (fetchList offline list_loaded ()) =
      list_loaded\<lparr>l_loading := False, l_error := JStr (str ''offline''), l_addResults := [],
        l_toasts := [new_toast, new_toast, new_toast]\<rparr>"
    by (simp add: fetchList_def render_def callService_def Let_def offline_def js_or_def
          list_loaded_def str_def)
  have b: "html (renderBody (fst (fetchList offline list_loaded ()))) =
       str ''<div class=\"state-box\"><span class=\"error-icon\">'' @ [0x26A0, 0xFE0F]
       @ str ''</span><span>offline</span></div>''"
    unfolding f
    by (simp add: renderBody_def html_def list_loaded_def escHtml_def replace_all_def str_def
          amp_def lt_def gt_def quot_def)
  have r: "\<not> sublist (str ''Milk'') (html (render_html [] (fst (fetchList offline list_loaded ()))))"
    unfolding f
    by (simp add: render_html_def renderBody_def html_def list_loaded_def Let_def js_or_def
          example_config_def escHtml_def replace_all_def str_def amp_def lt_def gt_def quot_def
          digits.simps num_str_def digit_def sublist_code prefix_code)
  from f b r show ?thesis by (simp add: list_loaded_def)
qed

subsection \<open>C3: the toast\<close>

lemma str_0_1: "str ''0'' \<noteq> str ''1''"
  by (simp add: str_def)

lemma hide_toast_length: "length (l_toasts (hide_toast i st)) = length (l_toasts st)"
  by (simp add: hide_toast_def)

lemma fold_hide_length:
  "length (l_toasts (fold (\<lambda>(due, i) s. hide_toast i s) ts st)) = length (l_toasts st)"
  by (induction ts arbitrary: st) (auto simp: hide_toast_length)

lemma hide_toast_nth:
  "j < length (l_toasts st) \<Longrightarrow>
   opacity (l_toasts (hide_toast i st) ! j) = (if j = i then str ''0'' else opacity (l_toasts st ! j))
   \<and> textContent (l_toasts (hide_toast i st) ! j) = textContent (l_toasts st ! j)"
  by (auto simp: hide_toast_def nth_list_update)

lemma fold_hide_nth:
  "j < length (l_toasts st) \<Longrightarrow>
   opacity (l_toasts (fold (\<lambda>(due, i) s. hide_toast i s) ts st) ! j)
     = (if j \<in> snd ` set ts then str ''0'' else opacity (l_toasts st ! j))
   \<and> textContent (l_toasts (fold (\<lambda>(due, i) s. hide_toast i s) ts st) ! j)
     = textContent (l_toasts st ! j)"
proof (induction ts arbitrary: st)
  case Nil
  then show ?case by simp
next
  case (Cons t ts)
  obtain due i where t: "t = (due, i)" by (cases t)
  have j: "j < length (l_toasts (hide_toast i st))"
    using Cons.prems by (simp add: hide_toast_length)
  show ?case
    using Cons.IH [OF j] hide_toast_nth [OF Cons.prems, of i]
    by (auto simp: t)
qed

lemma toast_shown_run_timers:
  assumes "l_toasts st \<noteq> []"
  shows "toast_shown (run_timers T st) =
           (if \<exists>(due, i) \<in> set (l_timers st). due \<le> T \<and> i = length (l_toasts st) - 1
            then None else toast_shown st)"
proof -
  let ?due = "filter (\<lambda>(due, i). due \<le> T) (l_timers st)"
  let ?j = "length (l_toasts st) - 1"
  have j: "?j < length (l_toasts st)" using assms by simp
  have len: "length (l_toasts (run_timers T st)) = length (l_toasts st)"
    by (simp add: run_timers_def fold_hide_length)
  then have ne: "l_toasts (run_timers T st) \<noteq> []" using assms by auto
  have last: "last (l_toasts (run_timers T st)) = l_toasts (fold (\<lambda>(due, i) s. hide_toast i s) ?due st) ! ?j"
    using ne len by (simp add: last_conv_nth) (simp add: run_timers_def)
  have mem: "?j \<in> snd ` set ?due \<longleftrightarrow> (\<exists>(due, i) \<in> set (l_timers st). due \<le> T \<and> i = ?j)"
    by force
  have op: "opacity (last (l_toasts (run_timers T st)))
              = (if ?j \<in> snd ` set ?due then str ''0'' else opacity (last (l_toasts st)))"
    and tx: "textContent (last (l_toasts (run_timers T st))) = textContent (last (l_toasts st))"
    using fold_hide_nth [OF j, of ?due] assms by (simp_all add: last last_conv_nth)
  show ?thesis
  proof (cases "?j \<in> snd ` set ?due")
    case True
    then have "toast_shown (run_timers T st) = None"
      using op str_0_1 by (simp add: toast_shown_def)
    with True mem show ?thesis by simp
  next
    case False
    then have "toast_shown (run_timers T st) = toast_shown st"
      using op tx ne assms by (simp add: toast_shown_def)
    with False mem show ?thesis by simp
  qed
qed

lemma toast_shown_showToast:
  assumes "l_toasts st \<noteq> []"
  shows "toast_shown (showToast now msg isError st) = Some msg"
  using assms by (simp add: showToast_def toast_shown_def Let_def last_conv_nth)

text \<open>
  Claim C3, as the code has it. When the shadow root has a \<open>.toast\<close> element,
  \<open>_showToast\<close> shows the message at once and schedules a callback that hides the
  element 2500 ms after this call. Callbacks of earlier calls stay scheduled: when the
  clock reaches \<open>T\<close>, the toast is hidden if this call's callback is due or any earlier
  callback for the same element is due, and shows the message otherwise. So the delay is
  not restarted by a later call.
\<close>

theorem showToast_dismissal:
  assumes "l_toasts st \<noteq> []"
  shows "toast_shown (showToast now msg isError st) = Some msg
     \<and> l_timers (showToast now msg isError st) = l_timers st @ [(now + 2500, length (l_toasts st) - 1)]
     \<and> toast_shown (run_timers T (showToast now msg isError st)) =
         (if now + 2500 \<le> T
             \<or> (\<exists>(due, i) \<in> set (l_timers st). due \<le> T \<and> i = length (l_toasts st) - 1)
          then None else Some msg)"
proof -
  let ?s = "showToast now msg isError st"
  have ne: "l_toasts ?s \<noteq> []" and len: "length (l_toasts ?s) = length (l_toasts st)"
    and tm: "l_timers ?s = l_timers st @ [(now + 2500, length (l_toasts st) - 1)]"
    using assms by (simp_all add: showToast_def Let_def)
  show ?thesis
    using toast_shown_run_timers [OF ne, of T] toast_shown_showToast [OF assms, of now msg isError]
    by (auto simp: len tm)
qed

text \<open>A toast on the loaded card, shown at time 0: visible until 2499, hidden at 2500.\<close>

theorem showToast_dismissal_witness:
  "l_toasts list_loaded \<noteq> []
   \<and> toast_shown (showToast 0 (str ''first'') False list_loaded) = Some (str ''first'')
   \<and> toast_shown (run_timers 2499 (showToast 0 (str ''first'') False list_loaded))
       = Some (str ''first'')
   \<and> toast_shown (run_timers 2500 (showToast 0 (str ''first'') False list_loaded)) = None"
proof -
  have ne: "l_toasts list_loaded \<noteq> []" and tm: "l_timers list_loaded = []"
    by (simp_all add: list_loaded_def)
  from showToast_dismissal [OF ne, of 0 "str ''first''" False 2499]
       showToast_dismissal [OF ne, of 0 "str ''first''" False 2500]
  show ?thesis by (simp add: ne tm)
qed

text \<open>
  The claim as the specification states it fails: a first toast at time 0 and a second
  at time 2000 (before the first is dismissed). The second toast is still shown at 2499
  but is hidden at 2500, by the callback of the first call: 500 ms after it was shown,
  not 2500 ms.
\<close>

theorem showToast_dismissal_counterexample:
  "toast_shown (run_timers 2499 (showToast 2000 (str ''second'') False
       (run_timers 2000 (showToast 0 (str ''first'') False list_loaded)))) = Some (str ''second'')
   \<and> toast_shown (run_timers 2500 (showToast 2000 (str ''second'') False
       (run_timers 2000 (showToast 0 (str ''first'') False list_loaded)))) = None"
  by (simp add: showToast_def run_timers_def hide_toast_def toast_shown_def list_loaded_def
        new_toast_def Let_def str_def)

subsection \<open>C4: configuration\<close>

text \<open>
  Claim C4. \<open>setConfig\<close> of the shopping-list card throws when \<open>config_entry_id\<close> or
  \<open>shopping_list_id\<close> is missing or empty (falsy), and \<open>setConfig\<close> of the cart card
  when \<open>config_entry_id\<close> is; the state is then untouched and nothing is rendered or
  fetched. With the required fields present, \<open>setConfig\<close> returns normally, the
  configuration is stored, and the card renders once without any call.
\<close>

theorem setConfig_validates:
  "(\<not> truthy (config_entry_id cfg) \<or> \<not> truthy (shopping_list_id cfg) \<longrightarrow>
      (\<exists>msg. setConfig cfg st = (Inl msg, st, [])))
   \<and> (truthy (config_entry_id cfg) \<and> truthy (shopping_list_id cfg) \<longrightarrow>
      (\<exists>st'. setConfig cfg st = (Inr (), st', [Render (st'\<lparr>l_toasts := l_toasts st\<rparr>)])
            \<and> l_config st' = Some cfg))
   \<and> (\<not> truthy (config_entry_id cfg) \<longrightarrow>
      (\<exists>msg. setConfig_cart cfg cst = (Inl msg, cst, [])))
   \<and> (truthy (config_entry_id cfg) \<longrightarrow>
      (\<exists>cst'. setConfig_cart cfg cst = (Inr (), cst', [Render cst']) \<and> c_config cst' = Some cfg))"
  by (simp add: setConfig_def setConfig_cart_def render_def Let_def)

text \<open>
  At concrete inputs: a configuration without \<open>config_entry_id\<close>, one with an empty
  \<open>shopping_list_id\<close>, and a complete one, on freshly constructed cards.
\<close>

theorem setConfig_validates_witness:
  "(\<exists>msg. setConfig (example_config\<lparr>config_entry_id := JUndefined\<rparr>) list_init
            = (Inl msg, list_init, []))
   \<and> (\<exists>msg. setConfig (example_config\<lparr>shopping_list_id := JStr []\<rparr>) list_init
            = (Inl msg, list_init, []))
   \<and> (\<exists>msg. setConfig_cart (example_config\<lparr>config_entry_id := JUndefined\<rparr>) cart_init
            = (Inl msg, cart_init, []))
   \<and> (\<exists>st'. setConfig example_config list_init
            = (Inr (), st', [Render (st'\<lparr>l_toasts := l_toasts list_init\<rparr>)])
          \<and> l_config st' = Some example_config)
   \<and> (\<exists>cst'. setConfig_cart example_config cart_init = (Inr (), cst', [Render cst'])
          \<and> c_config cst' = Some example_config)"
proof -
  have a: "\<not> truthy (config_entry_id (example_config\<lparr>config_entry_id := JUndefined\<rparr>))"
    by simp
  have b: "\<not> truthy (shopping_list_id (example_config\<lparr>shopping_list_id := JStr []\<rparr>))"
    by simp
  have c: "truthy (config_entry_id example_config) \<and> truthy (shopping_list_id example_config)"
    by (simp add: example_config_def str_def)
  from a setConfig_validates [of "example_config\<lparr>config_entry_id := JUndefined\<rparr>" list_init cart_init]
  have 1: "\<exists>msg. setConfig (example_config\<lparr>config_entry_id := JUndefined\<rparr>) list_init
            = (Inl msg, list_init, [])"
    and 3: "\<exists>msg. setConfig_cart (example_config\<lparr>config_entry_id := JUndefined\<rparr>) cart_init
            = (Inl msg, cart_init, [])"
    by blast+
  from b setConfig_validates [of "example_config\<lparr>shopping_list_id := JStr []\<rparr>" list_init cart_init]
  have 2: "\<exists>msg. setConfig (example_config\<lparr>shopping_list_id := JStr []\<rparr>) list_init
            = (Inl msg, list_init, [])"
    by blast
  from c setConfig_validates [of example_config list_init cart_init]
  have 4: "\<exists>st'. setConfig example_config list_init
            = (Inr (), st', [Render (st'\<lparr>l_toasts := l_toasts list_init\<rparr>)])
          \<and> l_config st' = Some example_config"
    and 5: "\<exists>cst'. setConfig_cart example_config cart_init = (Inr (), cst', [Render cst'])
          \<and> c_config cst' = Some example_config"
    by blast+
  from 1 2 3 4 5 show ?thesis by blast
qed

subsection \<open>C5: search\<close>

lemma trim_Nil: "trim [] = []"
  by (simp add: trim_def)

text \<open>
  Claim C5. When the query, trimmed, has fewer than 2 characters (the empty query
  included), \<open>_searchProducts\<close> empties the search results, clears the search error,
  renders, and issues no call. Otherwise, on an attached and configured card, it renders
  with \<open>searching\<close> set and the search error cleared, then issues the \<open>search_product\<close>
  call with the query as typed and the limit 10; no other service call follows, and
  it ends with a render in which \<open>searching\<close> is cleared.
\<close>

theorem searchProducts_threshold:
  "(length (trim query) < 2 \<longrightarrow>
      searchProducts hass fetch query st w =
        (st\<lparr>c_searchResults := [], c_searchError := JNull\<rparr>, w,
         [Render (st\<lparr>c_searchResults := [], c_searchError := JNull\<rparr>)]))
   \<and> (2 \<le> length (trim query) \<and> c_hass st \<and> c_config st = Some cfg \<longrightarrow>
      (\<exists>rest.
         snd (snd (searchProducts hass fetch query st w)) =
           [Render (st\<lparr>c_searching := True, c_searchError := JNull\<rparr>),
            Call (c_domain st) ''search_product''
              [(''config_entry_id'', config_entry_id cfg), (''product_name'', JStr query),
               (''limit'', JNum 10)],
            Settled (fst (hass w (c_domain st) ''search_product''
              [(''config_entry_id'', config_entry_id cfg), (''product_name'', JStr query),
               (''limit'', JNum 10)]))] @ rest
         \<and> calls rest = []
         \<and> last rest = Render (fst (searchProducts hass fetch query st w)))
      \<and> \<not> c_searching (fst (searchProducts hass fetch query st w)))"
proof -
  have short: "length (trim query) < 2 \<Longrightarrow> searchProducts hass fetch query st w =
        (st\<lparr>c_searchResults := [], c_searchError := JNull\<rparr>, w,
         [Render (st\<lparr>c_searchResults := [], c_searchError := JNull\<rparr>)])"
    by (simp add: searchProducts_def Let_def)
  let ?data = "[(''config_entry_id'', config_entry_id cfg), (''product_name'', JStr query),
               (''limit'', JNum 10)]"
  have long: "(\<exists>rest.
         snd (snd (searchProducts hass fetch query st w)) =
           [Render (st\<lparr>c_searching := True, c_searchError := JNull\<rparr>),
            Call (c_domain st) ''search_product'' ?data,
            Settled (fst (hass w (c_domain st) ''search_product'' ?data))] @ rest
         \<and> calls rest = []
         \<and> last rest = Render (fst (searchProducts hass fetch query st w)))
      \<and> \<not> c_searching (fst (searchProducts hass fetch query st w))"
    if a: "2 \<le> length (trim query) \<and> c_hass st \<and> c_config st = Some cfg"
  proof -
  from a have q: "\<not> (query = [] \<or> length (trim query) < 2)"
    using trim_Nil by auto
  obtain r w1 where h: "hass w (c_domain st) ''search_product'' ?data = (r, w1)"
    by (cases "hass w (c_domain st) ''search_product'' ?data")
  show ?thesis
  proof (cases r)
    case (Rejected m)
    with a q h show ?thesis
      by (simp add: searchProducts_def callService_def Let_def)
  next
    case (Resolved res)
    let ?st2 = "st\<lparr>c_searching := True, c_searchError := JNull,
                   c_searchResults := data_search_results res\<rparr>"
    let ?fi = "fetchImages fetch (map cp_id (data_search_results res)) ?st2 w1"
    have t: "calls (snd (snd ?fi)) = []" by (simp add: fetchImages_trace)
    with a q h Resolved show ?thesis
      by (simp add: searchProducts_def callService_def Let_def split_beta calls_append)
  qed
  qed
  from short long show ?thesis by blast
qed

text \<open>
  On a card showing an earlier result and an earlier search error: the query \<open>" a "\<close>
  (one character once trimmed) clears both without a call; the query \<open>" ab"\<close> is sent.
\<close>

theorem searchProducts_threshold_witness:
  "length (trim (str '' a '')) < 2
   \<and> searchProducts scripted_hass scripted_fetch (str '' a '') cart_ready ([], []) =
        (cart_ready\<lparr>c_searchResults := [], c_searchError := JNull\<rparr>, ([], []),
         [Render (cart_ready\<lparr>c_searchResults := [], c_searchError := JNull\<rparr>)])
   \<and> 2 \<le> length (trim (str '' ab'')) \<and> c_hass cart_ready
   \<and> c_config cart_ready = Some example_config
   \<and> calls (snd (snd (searchProducts scripted_hass scripted_fetch (str '' ab'') cart_ready
          ([Resolved (RSearch (Some [yogurt]))], [FetchNotOk])))) =
        [(JStr (str ''rohlikcz2''), ''search_product'',
          [(''config_entry_id'', JStr (str ''entry1'')), (''product_name'', JStr (str '' ab'')),
           (''limit'', JNum 10)])]
   \<and> \<not> c_searching (fst (searchProducts scripted_hass scripted_fetch (str '' ab'') cart_ready
          ([Resolved (RSearch (Some [yogurt]))], [FetchNotOk])))"
proof -
  let ?w = "([Resolved (RSearch (Some [yogurt]))], [FetchNotOk])"
  have s: "length (trim (str '' a '')) < 2" and l: "2 \<le> length (trim (str '' ab''))"
    by (simp_all add: trim_def str_def is_ws_def)
  have h: "c_hass cart_ready" and c: "c_config cart_ready = Some example_config"
    and d: "c_domain cart_ready = JStr (str ''rohlikcz2'')"
    by (simp_all add: cart_ready_def)
  from searchProducts_threshold [of "str '' a ''" scripted_hass scripted_fetch cart_ready "([], [])"
      example_config] s
  have 1: "searchProducts scripted_hass scripted_fetch (str '' a '') cart_ready ([], []) =
        (cart_ready\<lparr>c_searchResults := [], c_searchError := JNull\<rparr>, ([], []),
         [Render (cart_ready\<lparr>c_searchResults := [], c_searchError := JNull\<rparr>)])"
    by blast
  from searchProducts_threshold [of "str '' ab''" scripted_hass scripted_fetch cart_ready ?w
      example_config] l h c
  obtain rest where
    t: "snd (snd (searchProducts scripted_hass scripted_fetch (str '' ab'') cart_ready ?w)) =
           [Render (cart_ready\<lparr>c_searching := True, c_searchError := JNull\<rparr>),
            Call (c_domain cart_ready) ''search_product''
              [(''config_entry_id'', config_entry_id example_config),
               (''product_name'', JStr (str '' ab'')), (''limit'', JNum 10)],
            Settled (fst (scripted_hass ?w (c_domain cart_ready) ''search_product''
              [(''config_entry_id'', config_entry_id example_config),
               (''product_name'', JStr (str '' ab'')), (''limit'', JNum 10)]))] @ rest"
    and r: "calls rest = []"
    and n: "\<not> c_searching (fst (searchProducts scripted_hass scripted_fetch (str '' ab'')
              cart_ready ?w))"
    by blast
  have 2: "calls (snd (snd (searchProducts scripted_hass scripted_fetch (str '' ab'') cart_ready ?w))) =
        [(JStr (str ''rohlikcz2''), ''search_product'',
          [(''config_entry_id'', JStr (str ''entry1'')), (''product_name'', JStr (str '' ab'')),
           (''limit'', JNum 10)])]"
    unfolding t by (simp add: calls_append r d example_config_def)
  from s l h c 1 2 n show ?thesis by simp
qed

subsection \<open>C6: removing a cart line\<close>

text \<open>
  Claim C6, as the code has it. On an attached and configured cart card,
  \<open>_removeFromCart(lineId)\<close> issues one \<open>delete_from_cart\<close> call whose
  \<open>order_field_id\<close> is the line id. When the call resolves, the rest of the handler is
  one run of \<open>_fetchCart\<close>: exactly one \<open>get_cart_content\<close> call follows, unless a
  cart fetch is in flight (\<open>_loading\<close>), in which case \<open>_fetchCart\<close> returns at its
  guard and nothing follows. When the call rejects, no further call is issued, the
  message is stored in the error slot and the card renders once, with the lines as they
  were.
\<close>

theorem removeFromCart_refresh:
  assumes "c_hass st" and "c_config st = Some cfg"
  shows "(let del = [(''config_entry_id'', config_entry_id cfg), (''order_field_id'', lineId)];
              r = fst (hass w (c_domain st) ''delete_from_cart'' del);
              w1 = snd (hass w (c_domain st) ''delete_from_cart'' del);
              res = removeFromCart hass fetch lineId st w
          in case r of
               Resolved x \<Rightarrow>
                 res = (fst (fetchCart hass fetch st w1), fst (snd (fetchCart hass fetch st w1)),
                        [Call (c_domain st) ''delete_from_cart'' del, Settled r]
                        @ snd (snd (fetchCart hass fetch st w1)))
                 \<and> calls (snd (snd res)) =
                     (c_domain st, ''delete_from_cart'', del)
                     # (if c_loading st then []
                        else [(c_domain st, ''get_cart_content'',
                               [(''config_entry_id'', config_entry_id cfg)])])
             | Rejected m \<Rightarrow>
                 res = (st\<lparr>c_error := JStr (str ''Failed to remove item: '' @ ToString m)\<rparr>, w1,
                        [Call (c_domain st) ''delete_from_cart'' del, Settled r,
                         Render (st\<lparr>c_error := JStr (str ''Failed to remove item: '' @ ToString m)\<rparr>)])
                 \<and> calls (snd (snd res)) = [(c_domain st, ''delete_from_cart'', del)]
                 \<and> c_products (fst res) = c_products st)"
proof -
  let ?del = "[(''config_entry_id'', config_entry_id cfg), (''order_field_id'', lineId)]"
  obtain r w1 where h: "hass w (c_domain st) ''delete_from_cart'' ?del = (r, w1)"
    by (cases "hass w (c_domain st) ''delete_from_cart'' ?del")
  show ?thesis
  proof (cases r)
    case (Rejected m)
    with assms h show ?thesis
      by (simp add: removeFromCart_def callService_def Let_def)
  next
    case (Resolved x)
    show ?thesis
    proof (cases "c_loading st")
      case True
      then have "fetchCart hass fetch st w1 = (st, w1, [])"
        by (simp add: fetchCart_def)
      with True Resolved assms h show ?thesis
        by (simp add: removeFromCart_def callService_def Let_def)
    next
      case False
      with Resolved assms h fetchCart_run [OF assms False, of hass fetch w1] show ?thesis
        by (simp add: removeFromCart_def callService_def Let_def split_beta calls_append)
    qed
  qed
qed

text \<open>
  Removing the line \<open>L-1\<close> of the one-line cart: when the host accepts and then reports an
  empty cart, the calls are the removal and one cart fetch and the cart ends empty; when
  the host rejects with \<open>busy\<close>, the only call is the removal and the line stays.
\<close>

theorem removeFromCart_refresh_witness:
  "c_hass cart_ready \<and> c_config cart_ready = Some example_config \<and> \<not> c_loading cart_ready
   \<and> calls (snd (snd (removeFromCart scripted_hass scripted_fetch (JStr (str ''L-1'')) cart_ready
          ([Resolved RNone, Resolved (RCart (Some []) (JNum 0) (JNum 0))], [])))) =
        [(JStr (str ''rohlikcz2''), ''delete_from_cart'',
          [(''config_entry_id'', JStr (str ''entry1'')), (''order_field_id'', JStr (str ''L-1''))]),
         (JStr (str ''rohlikcz2''), ''get_cart_content'',
          [(''config_entry_id'', JStr (str ''entry1''))])]
   \<and> c_products (fst (removeFromCart scripted_hass scripted_fetch (JStr (str ''L-1'')) cart_ready
          ([Resolved RNone, Resolved (RCart (Some []) (JNum 0) (JNum 0))], []))) = []
   \<and> removeFromCart scripted_hass scripted_fetch (JStr (str ''L-1'')) cart_ready
          ([Rejected (JStr (str ''busy''))], []) =
        (cart_ready\<lparr>c_error := JStr (str ''Failed to remove item: busy'')\<rparr>, ([], []),
         [Call (JStr (str ''rohlikcz2'')) ''delete_from_cart''
            [(''config_entry_id'', JStr (str ''entry1'')), (''order_field_id'', JStr (str ''L-1''))],
          Settled (Rejected (JStr (str ''busy''))),
          Render (cart_ready\<lparr>c_error := JStr (str ''Failed to remove item: busy'')\<rparr>)])"
proof -
  let ?ok = "([Resolved RNone, Resolved (RCart (Some []) (JNum 0) (JNum 0))], [])"
  let ?no = "([Rejected (JStr (str ''busy''))], [])"
  have h: "c_hass cart_ready" and c: "c_config cart_ready = Some example_config"
    and l: "\<not> c_loading cart_ready" and d: "c_domain cart_ready = JStr (str ''rohlikcz2'')"
    by (simp_all add: cart_ready_def)
  have e: "config_entry_id example_config = JStr (str ''entry1'')"
    by (simp add: example_config_def)
  have m: "str ''Failed to remove item: '' @ str ''busy'' = str ''Failed to remove item: busy''"
    by (simp add: str_def)
  from removeFromCart_refresh [OF h c, where hass = scripted_hass and w = ?ok
      and lineId = "JStr (str ''L-1'')" and fetch = scripted_fetch]
  have 1: "calls (snd (snd (removeFromCart scripted_hass scripted_fetch (JStr (str ''L-1''))
          cart_ready ?ok))) =
        [(JStr (str ''rohlikcz2''), ''delete_from_cart'',
          [(''config_entry_id'', JStr (str ''entry1'')), (''order_field_id'', JStr (str ''L-1''))]),
         (JStr (str ''rohlikcz2''), ''get_cart_content'',
          [(''config_entry_id'', JStr (str ''entry1''))])]"
    by (simp (no_asm_use) only: Let_def scripted_hass_def d e l if_False fst_conv snd_conv list.case outcome.case) blast
  have 2: "c_products (fst (removeFromCart scripted_hass scripted_fetch (JStr (str ''L-1''))
          cart_ready ?ok)) = []"
    by (simp add: removeFromCart_def fetchCart_def callService_def scripted_hass_def Let_def h c l)
  from removeFromCart_refresh [OF h c, where hass = scripted_hass and w = ?no
      and lineId = "JStr (str ''L-1'')" and fetch = scripted_fetch]
  have 3: "removeFromCart scripted_hass scripted_fetch (JStr (str ''L-1'')) cart_ready ?no =
        (cart_ready\<lparr>c_error := JStr (str ''Failed to remove item: busy'')\<rparr>, ([], []),
         [Call (JStr (str ''rohlikcz2'')) ''delete_from_cart''
            [(''config_entry_id'', JStr (str ''entry1'')), (''order_field_id'', JStr (str ''L-1''))],
          Settled (Rejected (JStr (str ''busy''))),
          Render (cart_ready\<lparr>c_error := JStr (str ''Failed to remove item: busy'')\<rparr>)])"
    by (simp (no_asm_use) only: Let_def scripted_hass_def d e l if_False m ToString.simps fst_conv snd_conv list.case outcome.case) blast
  from h c l 1 2 3 show ?thesis by simp
qed

text \<open>
  The claim as the specification states it fails when a cart fetch is in flight at the
  moment the removal resolves (the user has pressed Refresh, or has removed another line
  whose refresh is still running): the removal succeeds, and the only call of the handler
  is the removal itself; no cart refresh follows.
\<close>

theorem removeFromCart_refresh_counterexample:
  "removeFromCart scripted_hass scripted_fetch (JStr (str ''L-1'')) (cart_ready\<lparr>c_loading := True\<rparr>)
          ([Resolved RNone, Resolved (RCart (Some []) (JNum 0) (JNum 0))], []) =
     (cart_ready\<lparr>c_loading := True\<rparr>,
      ([Resolved (RCart (Some []) (JNum 0) (JNum 0))], []),
      [Call (JStr (str ''rohlikcz2'')) ''delete_from_cart''
         [(''config_entry_id'', JStr (str ''entry1'')), (''order_field_id'', JStr (str ''L-1''))],
       Settled (Resolved RNone)])"
  by (simp add: removeFromCart_def fetchCart_def callService_def scripted_hass_def Let_def
        cart_ready_def example_config_def)

subsection \<open>C7: the image cache\<close>

text \<open>
  Claim C7. \<open>_fetchImages(ids)\<close> issues no request when every id has an entry in the
  cache, and otherwise one request whose address lists exactly the ids without an entry,
  in order. After the call the cached ids are the ones cached before together with the
  ids of the items a successful lookup returned; a request that rejects, answers with
  \<open>ok\<close> false or does not parse leaves the whole state as it was. So a second call
  requests only the ids of its argument that were neither cached before the first call
  nor returned by it, and requests nothing when all of them are cached.
\<close>

theorem fetchImages_twice:
  assumes "fetchImages fetch ids1 st w = (st1, w1, tr1)"
      and "fetchImages fetch ids2 st1 w1 = (st2, w2, tr2)"
  shows "(let unc1 = uncached_of st ids1; r1 = fst (fetch w (products_url unc1));
              unc2 = uncached_of st1 ids2; r2 = fst (fetch w1 (products_url unc2))
          in tr1 = (if unc1 = [] then [] else [Fetch (products_url unc1), Fetched r1])
             \<and> cached st1 = cached st \<union>
                  (if unc1 = [] then {}
                   else case r1 of FetchOk items \<Rightarrow> item_id ` set items
                        | FetchRejected \<Rightarrow> {} | FetchNotOk \<Rightarrow> {} | FetchJsonRejected \<Rightarrow> {})
             \<and> (if unc1 = [] \<or> r1 \<in> {FetchRejected, FetchNotOk, FetchJsonRejected}
                 then st1 = st else True)
             \<and> tr2 = (if unc2 = [] then [] else [Fetch (products_url unc2), Fetched r2])
             \<and> set unc2 = set ids2 - cached st1
             \<and> (if set ids2 \<subseteq> cached st1 then tr2 = [] \<and> st2 = st1 else True))"
proof -
  let ?unc1 = "uncached_of st ids1"
  let ?r1 = "fst (fetch w (products_url ?unc1))"
  let ?unc2 = "uncached_of st1 ids2"
  have s: "set ?unc2 = set ids2 - cached st1" by (auto simp: uncached_of_def)
  then have e: "set ids2 \<subseteq> cached st1 \<Longrightarrow> ?unc2 = []"
    by (metis Diff_eq_empty_iff set_empty)
  have st1: "st1 = (if ?unc1 = [] then st
                    else case ?r1 of
                           FetchOk items \<Rightarrow> st\<lparr>c_imageCache := cache_items items (c_imageCache st)\<rparr>
                         | FetchRejected \<Rightarrow> st | FetchNotOk \<Rightarrow> st | FetchJsonRejected \<Rightarrow> st)"
    and t1: "tr1 = (if ?unc1 = [] then [] else [Fetch (products_url ?unc1), Fetched ?r1])"
    using assms(1) by (auto simp: fetchImages_eq split: if_splits)
  have c1: "cached st1 = cached st \<union>
                  (if ?unc1 = [] then {}
                   else case ?r1 of FetchOk items \<Rightarrow> item_id ` set items
                        | FetchRejected \<Rightarrow> {} | FetchNotOk \<Rightarrow> {} | FetchJsonRejected \<Rightarrow> {})"
    unfolding st1 by (cases ?r1) (simp_all add: cached_def dom_cache_items)
  have u1: "(if ?unc1 = [] \<or> ?r1 \<in> {FetchRejected, FetchNotOk, FetchJsonRejected}
                 then st1 = st else True)"
    unfolding st1 by (cases ?r1) simp_all
  have t2: "tr2 = (if ?unc2 = [] then [] else [Fetch (products_url ?unc2),
                     Fetched (fst (fetch w1 (products_url ?unc2)))])"
    and u2: "?unc2 = [] \<Longrightarrow> st2 = st1"
    using assms(2) by (auto simp: fetchImages_eq split: if_splits)
  from t1 c1 u1 t2 u2 s e show ?thesis by (simp add: Let_def)
qed

text \<open>
  On a fresh cart card: the ids 1 and 2 are looked up and both returned; then the ids 2
  and 3 lead to a request for 3 alone, which fails and changes nothing; and the ids 2
  and 1 lead to no request.
\<close>

theorem fetchImages_twice_witness:
  "fetchImages scripted_fetch [1, 2] cart_init ([], [FetchOk [butter, flour], FetchNotOk]) =
     (cart_init\<lparr>c_imageCache :=
         [(1, \<lparr>ie_image = JStr (str ''https://cdn/1.jpg''), ie_textualAmount = JStr (str ''250 g'')\<rparr>),
          (2, \<lparr>ie_image = JNull, ie_textualAmount = JNull\<rparr>)]\<rparr>,
      ([], [FetchNotOk]),
      [Fetch (str ''https://www.rohlik.cz/api/v1/products?products=1&products=2''),
       Fetched (FetchOk [butter, flour])])
   \<and> fetchImages scripted_fetch [2, 3]
        (cart_init\<lparr>c_imageCache :=
         [(1, \<lparr>ie_image = JStr (str ''https://cdn/1.jpg''), ie_textualAmount = JStr (str ''250 g'')\<rparr>),
          (2, \<lparr>ie_image = JNull, ie_textualAmount = JNull\<rparr>)]\<rparr>)
        ([], [FetchNotOk]) =
     (cart_init\<lparr>c_imageCache :=
         [(1, \<lparr>ie_image = JStr (str ''https://cdn/1.jpg''), ie_textualAmount = JStr (str ''250 g'')\<rparr>),
          (2, \<lparr>ie_image = JNull, ie_textualAmount = JNull\<rparr>)]\<rparr>,
      ([], []),
      [Fetch (str ''https://www.rohlik.cz/api/v1/products?products=3''), Fetched FetchNotOk])
   \<and> cached (cart_init\<lparr>c_imageCache :=
         [(1, \<lparr>ie_image = JStr (str ''https://cdn/1.jpg''), ie_textualAmount = JStr (str ''250 g'')\<rparr>),
          (2, \<lparr>ie_image = JNull, ie_textualAmount = JNull\<rparr>)]\<rparr>) = {1, 2}
   \<and> snd (snd (fetchImages scripted_fetch [2, 1]
        (cart_init\<lparr>c_imageCache :=
         [(1, \<lparr>ie_image = JStr (str ''https://cdn/1.jpg''), ie_textualAmount = JStr (str ''250 g'')\<rparr>),
          (2, \<lparr>ie_image = JNull, ie_textualAmount = JNull\<rparr>)]\<rparr>)
        ([], [FetchNotOk]))) = []"
proof -
  let ?st1 = "cart_init\<lparr>c_imageCache :=
         [(1, \<lparr>ie_image = JStr (str ''https://cdn/1.jpg''), ie_textualAmount = JStr (str ''250 g'')\<rparr>),
          (2, \<lparr>ie_image = JNull, ie_textualAmount = JNull\<rparr>)]\<rparr>"
  have u: "products_url [1, 2] = str ''https://www.rohlik.cz/api/v1/products?products=1&products=2''"
    "products_url [3] = str ''https://www.rohlik.cz/api/v1/products?products=3''"
    by (simp_all add: products_url_def num_str_def digits.simps digit_def str_def)
  have a: "fetchImages scripted_fetch [1, 2] cart_init ([], [FetchOk [butter, flour], FetchNotOk]) =
     (?st1, ([], [FetchNotOk]),
      [Fetch (str ''https://www.rohlik.cz/api/v1/products?products=1&products=2''),
       Fetched (FetchOk [butter, flour])])"
    by (simp add: fetchImages_def Let_def u [symmetric] scripted_fetch_def cache_items_def
          first_image_def js_or_def butter_def flour_def)
       (simp add: cart_init_def str_def)
  have b: "fetchImages scripted_fetch [2, 3] ?st1 ([], [FetchNotOk]) =
     (?st1, ([], []),
      [Fetch (str ''https://www.rohlik.cz/api/v1/products?products=3''), Fetched FetchNotOk])"
    by (simp add: fetchImages_def Let_def u [symmetric] scripted_fetch_def)
  obtain st3 w3 tr3 where c: "fetchImages scripted_fetch [2, 1] ?st1 ([], [FetchNotOk]) = (st3, w3, tr3)"
    by (cases "fetchImages scripted_fetch [2, 1] ?st1 ([], [FetchNotOk])")
  from fetchImages_twice [OF a b] have k: "cached ?st1 = {1, 2}"
    by (simp add: Let_def uncached_of_def cached_def cart_init_def u scripted_fetch_def
          butter_def flour_def insert_commute)
  from fetchImages_twice [OF a c] k have "tr3 = []" by (simp add: Let_def)
  with a b c k show ?thesis by simp
qed

subsection \<open>C8: the size hint\<close>

lemma ceil_half: "\<lceil>real n / 2\<rceil> = int ((n + 1) div 2)"
proof -
  have "real n / 2 = of_int (int n) / of_int 2" by simp
  then have "\<lceil>real n / 2\<rceil> = - (- int n div 2)"
    by (simp only: ceiling_divide_eq_div)
  also have "\<dots> = int ((n + 1) div 2)" by (simp add: zdiv_int)
  finally show ?thesis .
qed

text \<open>
  Claim C8. The shopping-list card declares \<open>getCardSize\<close>, and for \<open>n\<close> items it
  returns \<open>max(1, ceil(n/2) + 2)\<close>, which is \<open>(n + 1) div 2 + 2\<close>. The cart card
  declares no \<open>getCardSize\<close>: it exposes no size hint.
\<close>

theorem getCardSize_cart_missing:
  "''getCardSize'' \<notin> set (methods RohlikczCartCard)
   \<and> ''getCardSize'' \<in> set (methods RohlikczShoppingListCard)
   \<and> getCardSize st = max 1 (\<lceil>real (length (l_items st)) / 2\<rceil> + 2)
   \<and> getCardSize st = int ((length (l_items st) + 1) div 2) + 2"
  by (simp add: getCardSize_def ceil_half)

subsection \<open>C9: adding from the search results\<close>

text \<open>
  Claim C9, as the code has it. On an attached and configured cart card,
  \<open>_addToCart(productId)\<close> renders with the product's in-flight flag set and issues
  the \<open>add_to_cart\<close> call. When the call resolves, \<open>_loaded\<close> is reset and one run of
  \<open>_fetchCart\<close> follows: one \<open>get_cart_content\<close> call, unless a cart fetch is in
  flight (\<open>_loading\<close>), in which case \<open>_fetchCart\<close> returns at its guard and no
  refetch follows. When the call rejects, no further call is issued and the message is
  stored in the main error slot; the body of the last render is the error panel, unless a
  cart fetch is in flight, in which case it is the loading line. In both cases every
  render before the last has the flag true, and the last render and the final state have
  it false.
\<close>

theorem addToCart_refetch:
  assumes "c_hass st" and "c_config st = Some cfg"
  shows "(let add = [(''config_entry_id'', config_entry_id cfg), (''product_id'', JNum pid),
                     (''quantity'', JNum 1)];
              r = fst (hass w (c_domain st) ''add_to_cart'' add);
              w1 = snd (hass w (c_domain st) ''add_to_cart'' add);
              st1 = st\<lparr>c_addingToCart := put pid True (c_addingToCart st)\<rparr>;
              res = addToCart hass fetch pid st w;
              tr = snd (snd res)
          in (case r of
                Resolved x \<Rightarrow>
                  tr = [Render st1, Call (c_domain st) ''add_to_cart'' add, Settled r]
                       @ snd (snd (fetchCart hass fetch (st1\<lparr>c_loaded := False\<rparr>) w1))
                       @ [Render (fst res)]
                  \<and> calls tr =
                      (c_domain st, ''add_to_cart'', add)
                      # (if c_loading st then []
                         else [(c_domain st, ''get_cart_content'',
                                [(''config_entry_id'', config_entry_id cfg)])])
                  \<and> \<not> c_loaded (fst res)
              | Rejected m \<Rightarrow>
                  tr = [Render st1, Call (c_domain st) ''add_to_cart'' add, Settled r,
                        Render (fst res)]
                  \<and> calls tr = [(c_domain st, ''add_to_cart'', add)]
                  \<and> c_error (fst res) = JStr (str ''Failed to add item: '' @ ToString m)
                  \<and> render_body (fst res) =
                      (if c_loading st then LoadingPanel else ErrorPanel (c_error (fst res))))
             \<and> list_all (\<lambda>s. map_of (c_addingToCart s) pid = Some True) (butlast (renders tr))
             \<and> last (renders tr) = fst res
             \<and> map_of (c_addingToCart (fst res)) pid = Some False)"
proof -
  let ?add = "[(''config_entry_id'', config_entry_id cfg), (''product_id'', JNum pid),
                     (''quantity'', JNum 1)]"
  let ?st1 = "st\<lparr>c_addingToCart := put pid True (c_addingToCart st)\<rparr>"
  obtain r w1 where h: "hass w (c_domain st) ''add_to_cart'' ?add = (r, w1)"
    by (cases "hass w (c_domain st) ''add_to_cart'' ?add")
  show ?thesis
  proof (cases r)
    case (Rejected m)
    with assms h show ?thesis
      by (simp add: addToCart_def callService_def Let_def map_of_put render_body_def str_def)
  next
    case (Resolved x)
    let ?st2 = "?st1\<lparr>c_loaded := False\<rparr>"
    show ?thesis
    proof (cases "c_loading st")
      case True
      then have "fetchCart hass fetch ?st2 w1 = (?st2, w1, [])"
        by (simp add: fetchCart_def)
      with True Resolved assms h show ?thesis
        by (simp add: addToCart_def callService_def Let_def map_of_put)
    next
      case False
      have a: "c_hass ?st2" "c_config ?st2 = Some cfg" "\<not> c_loading ?st2"
        using assms False by simp_all
      from fetchCart_run [OF a, of hass fetch w1] Resolved assms h False show ?thesis
        by (simp add: addToCart_def callService_def Let_def split_beta calls_append
              renders_append map_of_put)
    qed
  qed
qed

text \<open>
  Adding product 7: when the host accepts and then reports the cart, the calls are the
  addition and one cart fetch; when it rejects with \<open>sold out\<close>, the only call is
  the addition and the body is the error panel with the message. The flag of product 7 is
  false at the end both times.
\<close>

theorem addToCart_refetch_witness:
  "c_hass cart_ready \<and> c_config cart_ready = Some example_config \<and> \<not> c_loading cart_ready
   \<and> calls (snd (snd (addToCart scripted_hass scripted_fetch 7 cart_ready
          ([Resolved RNone, Resolved (RCart (Some [yogurt]) (JNum 45) (JNum 3))], [FetchNotOk])))) =
        [(JStr (str ''rohlikcz2''), ''add_to_cart'',
          [(''config_entry_id'', JStr (str ''entry1'')), (''product_id'', JNum 7),
           (''quantity'', JNum 1)]),
         (JStr (str ''rohlikcz2''), ''get_cart_content'',
          [(''config_entry_id'', JStr (str ''entry1''))])]
   \<and> map_of (c_addingToCart (fst (addToCart scripted_hass scripted_fetch 7 cart_ready
          ([Resolved RNone, Resolved (RCart (Some [yogurt]) (JNum 45) (JNum 3))], [FetchNotOk]))))
        7 = Some False
   \<and> calls (snd (snd (addToCart scripted_hass scripted_fetch 7 cart_ready
          ([Rejected (JStr (str ''sold out''))], [])))) =
        [(JStr (str ''rohlikcz2''), ''add_to_cart'',
          [(''config_entry_id'', JStr (str ''entry1'')), (''product_id'', JNum 7),
           (''quantity'', JNum 1)])]
   \<and> render_body (fst (addToCart scripted_hass scripted_fetch 7 cart_ready
          ([Rejected (JStr (str ''sold out''))], []))) =
        ErrorPanel (JStr (str ''Failed to add item: sold out''))
   \<and> map_of (c_addingToCart (fst (addToCart scripted_hass scripted_fetch 7 cart_ready
          ([Rejected (JStr (str ''sold out''))], [])))) 7 = Some False"
proof -
  let ?ok = "([Resolved RNone, Resolved (RCart (Some [yogurt]) (JNum 45) (JNum 3))], [FetchNotOk])"
  let ?no = "([Rejected (JStr (str ''sold out''))], [])"
  have h: "c_hass cart_ready" and c: "c_config cart_ready = Some example_config"
    and l: "\<not> c_loading cart_ready" and d: "c_domain cart_ready = JStr (str ''rohlikcz2'')"
    by (simp_all add: cart_ready_def)
  have e: "config_entry_id example_config = JStr (str ''entry1'')"
    by (simp add: example_config_def)
  have m: "str ''Failed to add item: '' @ str ''sold out'' = str ''Failed to add item: sold out''"
    by (simp add: str_def)
  from addToCart_refetch [OF h c, where hass = scripted_hass and w = ?ok and pid = 7
      and fetch = scripted_fetch]
  have 1: "calls (snd (snd (addToCart scripted_hass scripted_fetch 7 cart_ready ?ok))) =
        [(JStr (str ''rohlikcz2''), ''add_to_cart'',
          [(''config_entry_id'', JStr (str ''entry1'')), (''product_id'', JNum 7),
           (''quantity'', JNum 1)]),
         (JStr (str ''rohlikcz2''), ''get_cart_content'',
          [(''config_entry_id'', JStr (str ''entry1''))])]"
    and 2: "map_of (c_addingToCart (fst (addToCart scripted_hass scripted_fetch 7 cart_ready ?ok)))
        7 = Some False"
    by (simp_all (no_asm_use) only: Let_def scripted_hass_def d e l if_False fst_conv snd_conv list.case outcome.case) blast+
  from addToCart_refetch [OF h c, where hass = scripted_hass and w = ?no and pid = 7
      and fetch = scripted_fetch]
  have 3: "calls (snd (snd (addToCart scripted_hass scripted_fetch 7 cart_ready ?no))) =
        [(JStr (str ''rohlikcz2''), ''add_to_cart'',
          [(''config_entry_id'', JStr (str ''entry1'')), (''product_id'', JNum 7),
           (''quantity'', JNum 1)])]"
    and 4: "render_body (fst (addToCart scripted_hass scripted_fetch 7 cart_ready ?no)) =
        ErrorPanel (JStr (str ''Failed to add item: sold out''))"
    and 5: "map_of (c_addingToCart (fst (addToCart scripted_hass scripted_fetch 7 cart_ready ?no)))
        7 = Some False"
    by (simp_all (no_asm_use) only: Let_def scripted_hass_def d e l if_False m ToString.simps fst_conv snd_conv list.case outcome.case)
       (blast | (elim conjE, simp))+
  from h c l 1 2 3 4 5 show ?thesis by simp
qed

text \<open>
  The claim as the specification states it fails when the cart is being fetched while a
  product is added from the search results (the add buttons are rendered while the cart
  loads): the addition succeeds, \<open>_loaded\<close> is reset, but the only call of the handler
  is the addition itself; no refetch follows. And after a rejected addition in that state
  the body rendered is the loading line, not the error panel.
\<close>

theorem addToCart_refetch_counterexample:
  "calls (snd (snd (addToCart scripted_hass scripted_fetch 7 (cart_ready\<lparr>c_loading := True\<rparr>)
          ([Resolved RNone, Resolved (RCart (Some [yogurt]) (JNum 45) (JNum 3))], [FetchNotOk])))) =
     [(JStr (str ''rohlikcz2''), ''add_to_cart'',
       [(''config_entry_id'', JStr (str ''entry1'')), (''product_id'', JNum 7),
        (''quantity'', JNum 1)])]
   \<and> render_body (fst (addToCart scripted_hass scripted_fetch 7 (cart_ready\<lparr>c_loading := True\<rparr>)
          ([Rejected (JStr (str ''sold out''))], []))) = LoadingPanel"
  by (simp add: addToCart_def fetchCart_def callService_def scripted_hass_def Let_def
        cart_ready_def example_config_def render_body_def)

subsection \<open>C10: escaping in the shopping-list card\<close>

text \<open>
  Claim C10. For every value \<open>v\<close>, \<open>_escHtml(v)\<close> contains no \<open><\<close>, \<open>>\<close> or \<open>"\<close>, and
  every \<open>&\<close> in it is the first character of one of \<open>&amp;\<close>, \<open>&lt;\<close>, \<open>&gt;\<close>,
  \<open>&quot;\<close>. Every text the shopping-list card substitutes into its markup from its
  state (the title, the names, brands, amounts and prices of the items, the error
  message, the names of the result log) is a result of \<open>_escHtml\<close>; the only other
  substitutions are the item count and the row indices, in decimal. So every substituted
  text is safe in the same sense.
\<close>

theorem escHtml_output_safe:
  "lt \<notin> set (escHtml v) \<and> gt \<notin> set (escHtml v) \<and> quot \<notin> set (escHtml v)
   \<and> (\<forall>ys zs. escHtml v = ys @ amp # zs \<longrightarrow> (\<exists>e \<in> set entities. prefix e (amp # zs)))
   \<and> (\<forall>s \<in> set (substituted (render_html css st)). from_escHtml s \<and> html_safe s)"
proof -
  have safe: "html_safe (escHtml v)" by (rule html_safe_escHtml)
  then have "amp_starts_entity (escHtml v)" by (simp add: html_safe_def)
  then have "\<forall>ys zs. escHtml v = ys @ amp # zs \<longrightarrow> (\<exists>e \<in> set entities. prefix e (amp # zs))"
    by (simp only: amp_starts_entity_iff)
  moreover have "\<forall>s \<in> set (substituted (render_html css st)). from_escHtml s \<and> html_safe s"
    using render_html_substituted html_safe_from_escHtml by blast
  ultimately show ?thesis using safe by (simp add: html_safe_def)
qed

text \<open>
  At a concrete input: an anchor tag with an ampersand is escaped as expected, its
  ampersand starts \<open>&amp;\<close>, and the name \<open>Milk <1l>\<close> of a loaded item reaches the
  markup escaped.
\<close>

theorem escHtml_output_safe_witness:
  "escHtml (JStr (str ''<a href=\"x\">R&D</a>'')) = str ''&lt;a href=&quot;x&quot;&gt;R&amp;D&lt;/a&gt;''
   \<and> (\<exists>e \<in> set entities. prefix e (amp # str ''amp;D&lt;/a&gt;''))
   \<and> str ''Milk &lt;1l&gt;'' \<in> set (substituted (render_html [] list_loaded))
   \<and> html_safe (str ''Milk &lt;1l&gt;'')"
proof -
  let ?v = "JStr (str ''<a href=\"x\">R&D</a>'')"
  have e: "escHtml ?v = str ''&lt;a href=&quot;x&quot;&gt;R&amp;D&lt;/a&gt;''"
    by (simp add: escHtml_def replace_all_def str_def amp_def lt_def gt_def quot_def)
  have split: "escHtml ?v = str ''&lt;a href=&quot;x&quot;&gt;R'' @ amp # str ''amp;D&lt;/a&gt;''"
    by (simp add: e) (simp add: str_def amp_def)
  have m: "str ''Milk &lt;1l&gt;'' \<in> set (substituted (render_html [] list_loaded))"
    by (simp add: render_html_def renderBody_def row_def list_loaded_def Let_def
          substituted_append substituted_concat example_config_def js_or_def coalesce_def
          milk_def enumerate_eq_zip)
       (simp add: escHtml_def replace_all_def str_def amp_def lt_def gt_def quot_def)
  from escHtml_output_safe [of ?v "[]" list_loaded] split m e show ?thesis by blast
qed

end
